theory Spec2Isabelle
  imports Complex_Main
begin

section \<open>Python values and failures\<close>

text \<open>
  The source is Python (\<^verbatim>\<open>src/image_registration/CNN/CNN.py\<close>). Every exception the
  modelled functions can raise is a value of \<open>py_error\<close>; a function that can raise returns
  \<open>py_error + 'a\<close> with \<open>Inl\<close> for the exception. A Python int is an \<open>int\<close>, a Python
  float the real number it holds. Where numpy would produce a NaN (the mean of an empty
  selection) the model stops with \<open>NotANumber\<close>, because the reals have no such value.
\<close>

datatype py_error =
    IndexError | KeyError | ZeroDivisionError | ValueError | TypeError
  | NameError | FileNotFoundError | OverflowError | NotANumber

text \<open>\<^verbatim>\<open>int(x)\<close> on a float truncates toward zero.\<close>

definition py_int :: "real \<Rightarrow> int" where
  "py_int x = (if 0 \<le> x then \<lfloor>x\<rfloor> else \<lceil>x\<rceil>)"

text \<open>\<^verbatim>\<open>round(x)\<close> on a float rounds to the nearest integer, a tie to the even one.\<close>

definition py_round :: "real \<Rightarrow> int" where
  "py_round x =
     (let f = \<lfloor>x\<rfloor>; d = x - of_int f
      in if d < 1 / 2 then f else if 1 / 2 < d then f + 1
         else if even f then f else f + 1)"

text \<open>
  An operation on floats returns the float nearest to its exact result. In
  \<open>rotate_landmarks\<close> and \<open>predict_landmarks\<close>, where that rounding decides which integer
  is written, it is explicit: a parameter of type \<open>rounding\<close>, applied to the exact result
  of every float operation (and to an int that is converted to a float), so that what is
  proved holds whatever the format rounds to. The other functions are written with exact
  operations.
\<close>

type_synonym rounding = "real \<Rightarrow> real"

text \<open>\<^verbatim>\<open>math.pi\<close> is the double nearest to \<open>\<pi>\<close>, \<^verbatim>\<open>0x1.921fb54442d18p+1\<close>.\<close>

definition math_pi :: real where
  "math_pi = 884279719003555 / 2 ^ 48"

text \<open>
  \<^verbatim>\<open>Series.unique()\<close> keeps the first occurrence of every value, in order of
  appearance.
\<close>

definition unique :: "'a list \<Rightarrow> 'a list" where
  "unique xs = rev (remdups (rev xs))"

section \<open>The landmark table\<close>

text \<open>
  A cell of a landmark column holds the printable text of a two-element list,
  \<^verbatim>\<open>str([x, y])\<close>, read back with \<^verbatim>\<open>ast.literal_eval\<close>, or is missing (NaN). The
  text is modelled by the pair it denotes: \<open>Coord x y\<close> is the text \<^verbatim>\<open>[x, y]\<close>.
\<close>

datatype cell = Coord int int | NaN

text \<open>
  A dataframe of landmarks: the landmark columns it has, and its rows in index order. A
  row is its \<^verbatim>\<open>"file name"\<close> entry and its cells by column name.
\<close>

record dataframe =
  df_columns :: "string list"
  df_rows :: "(string \<times> (string \<Rightarrow> cell)) list"

text \<open>
  The landmark model table \<^verbatim>\<open>df_model\<close>: rows of \<^verbatim>\<open>name\<close> and \<^verbatim>\<open>target\<close>.
  \<^verbatim>\<open>df_model["name"].unique()\<close> is the landmark vocabulary.
\<close>

type_synonym model_table = "(string \<times> string) list"

definition model_names :: "model_table \<Rightarrow> string list" where
  "model_names df_model = unique (map fst df_model)"

text \<open>
  \<^verbatim>\<open>df.loc[df["file name"] == file_name, lmk].values[0]\<close>: KeyError when the column does
  not exist, IndexError when no row has that file name, else the cell of the first such
  row. The \<^verbatim>\<open>"file name"\<close> column itself holds names, which \<^verbatim>\<open>literal_eval\<close> does not
  read as a list of two numbers.
\<close>

definition loc_first :: "dataframe \<Rightarrow> string \<Rightarrow> string \<Rightarrow> py_error + cell" where
  "loc_first df file_name lmk =
     (if lmk = ''file name'' then Inl ValueError
      else if lmk \<notin> set (df_columns df) then Inl KeyError
      else (case filter (\<lambda>r. fst r = file_name) (df_rows df) of
              [] \<Rightarrow> Inl IndexError
            | r # _ \<Rightarrow> Inr (snd r lmk)))"

text \<open>\<^verbatim>\<open>x, y = ast.literal_eval(cell)\<close>: a missing cell is not a literal.\<close>

fun literal_eval :: "cell \<Rightarrow> py_error + (int \<times> int)" where
  "literal_eval (Coord x y) = Inr (x, y)"
| "literal_eval NaN = Inl ValueError"

text \<open>
  \<^verbatim>\<open>df.loc[df["file name"] == file_name, lmk] = value\<close>: every row with that file name
  gets the value in column \<open>lmk\<close>; a column that does not exist yet is added.
\<close>

definition loc_set :: "dataframe \<Rightarrow> string \<Rightarrow> string \<Rightarrow> cell \<Rightarrow> dataframe" where
  "loc_set df file_name lmk v =
     \<lparr>df_columns = (if lmk \<in> set (df_columns df) then df_columns df
                    else df_columns df @ [lmk]),
      df_rows = map (\<lambda>r. if fst r = file_name then (fst r, (snd r)(lmk := v)) else r)
                  (df_rows df)\<rparr>"

text \<open>
  The three landmark transformations share one loop shape:
  \<^verbatim>\<open>
  for lmk in df_model["name"].unique():
      x, y = ast.literal_eval(df.loc[df["file name"] == filename, lmk].values[0])
      ...
      df.loc[df["file name"] == filename, lmk] = str([qx, qy])
  \<close>
  \<open>for_each_landmark\<close> is that loop, with the body's arithmetic \<open>g\<close> as a parameter.
\<close>

fun for_each_landmark ::
  "(int \<times> int \<Rightarrow> py_error + cell) \<Rightarrow> string \<Rightarrow> dataframe \<Rightarrow> string list
     \<Rightarrow> py_error + dataframe" where
  "for_each_landmark g file_name df [] = Inr df"
| "for_each_landmark g file_name df (lmk # lmks) =
     (case loc_first df file_name lmk of
        Inl e \<Rightarrow> Inl e
      | Inr c \<Rightarrow>
          (case literal_eval c of
             Inl e \<Rightarrow> Inl e
           | Inr xy \<Rightarrow>
               (case g xy of
                  Inl e \<Rightarrow> Inl e
                | Inr v \<Rightarrow> for_each_landmark g file_name (loc_set df file_name lmk v) lmks)))"

subsection \<open>landmarks_downsample\<close>

text \<open>
  \<^verbatim>\<open>
  x = int(x / binning)
  y = int(y / binning)
  \<close>
  True division of two ints, then truncation; division by zero raises.
\<close>

definition downsample_xy :: "int \<Rightarrow> int \<times> int \<Rightarrow> py_error + cell" where
  "downsample_xy binning xy =
     (if binning = 0 then Inl ZeroDivisionError
      else Inr (Coord (py_int (of_int (fst xy) / of_int binning))
                      (py_int (of_int (snd xy) / of_int binning))))"

definition landmarks_downsample ::
  "string \<Rightarrow> dataframe \<Rightarrow> model_table \<Rightarrow> int \<Rightarrow> py_error + dataframe" where
  "landmarks_downsample file_name df_landmarks df_model binning =
     for_each_landmark (downsample_xy binning) file_name df_landmarks (model_names df_model)"

subsection \<open>scale_landmarks and rotate_landmarks\<close>

text \<open>
  \<^verbatim>\<open>
  qx = round(ox + zoom * (x - ox))
  qy = round(oy + zoom * (y - oy))
  \<close>
\<close>

definition scale_xy :: "real \<Rightarrow> real \<Rightarrow> real \<Rightarrow> int \<times> int \<Rightarrow> py_error + cell" where
  "scale_xy ox oy zoom xy =
     Inr (Coord (py_round (ox + zoom * (of_int (fst xy) - ox)))
                (py_round (oy + zoom * (of_int (snd xy) - oy))))"

text \<open>
  \<^verbatim>\<open>
  qx = round(ox + math.cos(rad_angle) * (x - ox) - math.sin(rad_angle) * (y - oy))
  qy = round(oy + math.sin(rad_angle) * (x - ox) + math.cos(rad_angle) * (y - oy))
  \<close>
  \<open>x\<close> and \<open>y\<close> are the ints of the cell; \<open>ox\<close>, \<open>oy\<close> and \<open>rad_angle\<close> are floats.
  \<^verbatim>\<open>math.cos\<close> and \<^verbatim>\<open>math.sin\<close> are the platform's, the parameters \<open>fcos\<close> and
  \<open>fsin\<close>. Python evaluates \<^verbatim>\<open>a + b - c\<close> as \<^verbatim>\<open>(a + b) - c\<close>, every product first, and
  each of these operations rounds.
\<close>

definition rotate_xy ::
  "rounding \<Rightarrow> (real \<Rightarrow> real) \<Rightarrow> (real \<Rightarrow> real) \<Rightarrow> real \<Rightarrow> real \<Rightarrow> real \<Rightarrow> int \<times> int
     \<Rightarrow> py_error + cell" where
  "rotate_xy rnd fcos fsin ox oy rad_angle xy =
     (let dx = rnd (rnd (of_int (fst xy)) - ox);
          dy = rnd (rnd (of_int (snd xy)) - oy)
      in Inr (Coord (py_round (rnd (rnd (ox + rnd (fcos rad_angle * dx))
                                      - rnd (fsin rad_angle * dy))))
                    (py_round (rnd (rnd (oy + rnd (fsin rad_angle * dx))
                                      + rnd (fcos rad_angle * dy))))))"

section \<open>Images\<close>

text \<open>
  A 2D numpy array: its shape \<^verbatim>\<open>(shape[0], shape[1])\<close> = (rows, columns) and its
  samples by row and column index. The source's variables \<^verbatim>\<open>image\<close>, \<^verbatim>\<open>dim\<close> and
  \<^verbatim>\<open>normalize\<close> are written \<open>img\<close>, \<open>output_shape\<close> and \<open>normalization\<close> below, the
  former being names of HOL.
\<close>

record array2d =
  nrows :: nat
  ncols :: nat
  pix :: "nat \<Rightarrow> nat \<Rightarrow> real"

text \<open>\<^verbatim>\<open>ox, oy = img.shape[1] / 2, img.shape[0] / 2\<close>\<close>

definition center_x :: "array2d \<Rightarrow> real" where
  "center_x img = real (ncols img) / 2"

definition center_y :: "array2d \<Rightarrow> real" where
  "center_y img = real (nrows img) / 2"

definition scale_landmarks ::
  "array2d \<Rightarrow> real \<Rightarrow> dataframe \<Rightarrow> model_table \<Rightarrow> string \<Rightarrow> py_error + dataframe" where
  "scale_landmarks img zoom df_landmarks df_model filename =
     for_each_landmark (scale_xy (center_x img) (center_y img) zoom) filename df_landmarks
       (model_names df_model)"

text \<open>
  \<^verbatim>\<open>
  ox, oy = img.shape[1] / 2, img.shape[0] / 2
  rad_angle = angle * math.pi / 180
  \<close>
  followed by the loop over the vocabulary. \<open>angle\<close> is the float the caller passes (an int
  is converted to the float of its value).
\<close>

definition rotate_landmarks ::
  "rounding \<Rightarrow> (real \<Rightarrow> real) \<Rightarrow> (real \<Rightarrow> real) \<Rightarrow> array2d \<Rightarrow> real \<Rightarrow> dataframe \<Rightarrow> model_table
     \<Rightarrow> string \<Rightarrow> py_error + dataframe" where
  "rotate_landmarks rnd fcos fsin img angle df_landmarks_train df_model filename =
     (let ox = rnd (real (ncols img) / 2);
          oy = rnd (real (nrows img) / 2);
          rad_angle = rnd (rnd (angle * math_pi) / 180)
      in for_each_landmark (rotate_xy rnd fcos fsin ox oy rad_angle) filename
           df_landmarks_train (model_names df_model))"

text \<open>\<^verbatim>\<open>image[image > 0]\<close>: the strictly positive samples, in row-major order.\<close>

definition positive_samples :: "array2d \<Rightarrow> real list" where
  "positive_samples img =
     filter (\<lambda>v. 0 < v)
       (concat (map (\<lambda>i. map (\<lambda>j. pix img i j) [0..<ncols img]) [0..<nrows img]))"

text \<open>
  \<^verbatim>\<open>np.mean(image[image > 0])\<close>. With no positive sample numpy gives NaN and a
  warning; the model stops there.
\<close>

definition mean_positive :: "array2d \<Rightarrow> py_error + real" where
  "mean_positive img =
     (let ps = positive_samples img
      in if ps = [] then Inl NotANumber else Inr (sum_list ps / real (length ps)))"


subsection \<open>image_downsample\<close>





subsection \<open>rotate_image\<close>

text \<open>
  \<^verbatim>\<open>
  av_brightness = np.mean(image[image > 0])
  rotated_image = ndimage.rotate(image, -angle, reshape=False, mode='constant', cval=av_brightness)
  \<close>
  \<^verbatim>\<open>ndimage.rotate\<close> with \<^verbatim>\<open>reshape=False\<close> keeps the shape; its samples are the
  library's, the parameter \<open>nd_rotate\<close> (input, angle in degrees, fill value).
\<close>

type_synonym rotation = "array2d \<Rightarrow> real \<Rightarrow> real \<Rightarrow> nat \<Rightarrow> nat \<Rightarrow> real"

definition rotate_image :: "rotation \<Rightarrow> array2d \<Rightarrow> real \<Rightarrow> py_error + array2d" where
  "rotate_image nd_rotate img angle =
     (case mean_positive img of
        Inl e \<Rightarrow> Inl e
      | Inr av_brightness \<Rightarrow>
          Inr \<lparr>nrows = nrows img, ncols = ncols img,
               pix = nd_rotate img (- angle) av_brightness\<rparr>)"

subsection \<open>scale_image\<close>

text \<open>
  \<^verbatim>\<open>ndimage.zoom(image, zoom, mode='constant', cval=av_color)\<close>: the output has
  \<^verbatim>\<open>int(round(n * zoom))\<close> samples along an axis of \<open>n\<close>; its samples are the library's
  spline interpolation, the parameter \<open>spline\<close> (input, zoom, fill value).
\<close>

type_synonym zooming = "array2d \<Rightarrow> real \<Rightarrow> real \<Rightarrow> nat \<Rightarrow> nat \<Rightarrow> real"

definition nd_zoom :: "zooming \<Rightarrow> array2d \<Rightarrow> real \<Rightarrow> real \<Rightarrow> py_error + array2d" where
  "nd_zoom spline img zoom cval =
     (let n_y = py_round (real (nrows img) * zoom);
          n_x = py_round (real (ncols img) * zoom)
      in if n_y < 0 \<or> n_x < 0 then Inl ValueError
         else Inr \<lparr>nrows = nat n_y, ncols = nat n_x, pix = spline img zoom cval\<rparr>)"

text \<open>
  A Python slice \<^verbatim>\<open>start:stop\<close> on an axis of \<open>d\<close> entries: a negative bound counts
  from the end, both bounds are clipped to the axis, and the slice is empty when the
  bounds cross. The result is the first index and the number of entries.
\<close>

definition clip_bound :: "int \<Rightarrow> nat \<Rightarrow> nat" where
  "clip_bound a d = (if a < 0 then nat (max (a + int d) 0) else min (nat a) d)"

definition slice_range :: "int \<Rightarrow> int \<Rightarrow> nat \<Rightarrow> nat \<times> nat" where
  "slice_range start stop d = (clip_bound start d, clip_bound stop d - clip_bound start d)"

text \<open>\<^verbatim>\<open>a[y0:y1, x0:x1]\<close>\<close>

definition slice2 :: "array2d \<Rightarrow> int \<Rightarrow> int \<Rightarrow> int \<Rightarrow> int \<Rightarrow> array2d" where
  "slice2 a y0 y1 x0 x1 =
     (let ry = slice_range y0 y1 (nrows a); rx = slice_range x0 x1 (ncols a)
      in \<lparr>nrows = snd ry, ncols = snd rx, pix = (\<lambda>i j. pix a (fst ry + i) (fst rx + j))\<rparr>)"

text \<open>
  \<^verbatim>\<open>a[y0:y1, x0:x1] = b\<close>: \<open>b\<close> is broadcast to the shape of the slice (an axis of
  \<open>b\<close> fits when it has the slice's length or length 1), else numpy raises ValueError.
\<close>

definition slice_assign ::
  "array2d \<Rightarrow> int \<Rightarrow> int \<Rightarrow> int \<Rightarrow> int \<Rightarrow> array2d \<Rightarrow> py_error + array2d" where
  "slice_assign a y0 y1 x0 x1 b =
     (let ry = slice_range y0 y1 (nrows a); rx = slice_range x0 x1 (ncols a)
      in if (nrows b = snd ry \<or> nrows b = 1) \<and> (ncols b = snd rx \<or> ncols b = 1)
         then Inr (a\<lparr>pix := (\<lambda>i j.
                if fst ry \<le> i \<and> i < fst ry + snd ry \<and> fst rx \<le> j \<and> j < fst rx + snd rx
                then pix b (if nrows b = 1 then 0 else i - fst ry)
                           (if ncols b = 1 then 0 else j - fst rx)
                else pix a i j)\<rparr>)
         else Inl ValueError)"

text \<open>
  \<^verbatim>\<open>
  av_color = np.mean(image[image > 0])
  if zoom > 1:
      scaled_image = ndimage.zoom(image, zoom, mode='constant', cval=av_color)
      o_y_s, o_x_s = image.shape
      n_y_s, n_x_s = scaled_image.shape
      startx = n_x_s // 2 - o_x_s // 2
      starty = n_y_s // 2 - o_y_s // 2
      new_image = scaled_image[starty:starty + o_y_s, startx:startx + o_x_s]
  else:
      scaled_image = ndimage.zoom(image, zoom, mode='constant', cval=av_color)
      new_image = np.ones(image.shape) * av_color
      o_y_s, o_x_s = image.shape
      n_y_s, n_x_s = scaled_image.shape
      startx = o_x_s // 2 - n_x_s // 2
      starty = o_y_s // 2 - n_y_s // 2
      new_image[starty:starty + n_y_s, startx:startx + n_x_s] = scaled_image
  return new_image
  \<close>
\<close>

definition scale_image :: "zooming \<Rightarrow> array2d \<Rightarrow> real \<Rightarrow> py_error + array2d" where
  "scale_image spline img zoom =
     (case mean_positive img of
        Inl e \<Rightarrow> Inl e
      | Inr av_color \<Rightarrow>
          (case nd_zoom spline img zoom av_color of
             Inl e \<Rightarrow> Inl e
           | Inr scaled_image \<Rightarrow>
               (let o_y_s = int (nrows img); o_x_s = int (ncols img);
                    n_y_s = int (nrows scaled_image); n_x_s = int (ncols scaled_image)
                in if 1 < zoom
                   then
                     (let startx = n_x_s div 2 - o_x_s div 2;
                          starty = n_y_s div 2 - o_y_s div 2
                      in Inr (slice2 scaled_image starty (starty + o_y_s) startx (startx + o_x_s)))
                   else
                     (let new_image = \<lparr>nrows = nrows img, ncols = ncols img,
                                        pix = (\<lambda>i j. 1 * av_color)\<rparr>;
                          startx = o_x_s div 2 - n_x_s div 2;
                          starty = o_y_s div 2 - n_y_s div 2
                      in slice_assign new_image starty (starty + n_y_s) startx (startx + n_x_s)
                           scaled_image))))"

section \<open>The training monitor: WindowCallback\<close>

text \<open>
  \<^verbatim>\<open>os.path.join(a, b)\<close> for two parts, as \<^verbatim>\<open>posixpath\<close> has it: an absolute second
  part replaces the first; otherwise the parts are joined by one separator, none being
  added after an empty first part or one that already ends with it.
\<close>

definition os_path_join :: "string \<Rightarrow> string \<Rightarrow> string" where
  "os_path_join a b =
     (if b \<noteq> [] \<and> hd b = CHR ''/'' then b
      else if a = [] \<or> last a = CHR ''/'' then a @ b
      else a @ ''/'' @ b)"

text \<open>
  A value of the \<^verbatim>\<open>metrics\<close> dictionaries: a number taken from the epoch's logs, or the
  empty list that \<^verbatim>\<open>on_train_begin\<close> stores for every key of its logs.
\<close>

datatype mval = Num real | EmptyList

text \<open>
  The callback object. \<open>'m\<close> is the type of model values: \<^verbatim>\<open>copy.deepcopy(self.model)\<close>
  is the model's value at that moment. The attributes \<^verbatim>\<open>metrics\<close>, \<^verbatim>\<open>previous_metrics\<close>
  and \<^verbatim>\<open>current_epoch\<close> exist once \<^verbatim>\<open>on_train_begin\<close> has run (\<open>begun\<close>), the
  attribute \<^verbatim>\<open>model_to_save\<close> once an epoch has stored a snapshot. The window the
  callback reports to is not modelled, only the failures of preparing its messages.
\<close>

record 'm callback =
  epochs_left :: int
  folder :: string
  save_freq :: int
  model_name :: string
  filepath :: string
  begun :: bool
  metrics :: "string \<rightharpoonup> mval"
  previous_metrics :: "string \<rightharpoonup> mval"
  current_epoch :: int
  model_to_save :: "'m option"

datatype callback_error = AttributeError | Raised py_error

text \<open>
  \<^verbatim>\<open>
  def __init__(self, window, nb_epochs, folder, save_freq=10, model_name="landmarks_detection_model.h5"):
      self.epochs_left = nb_epochs
      self.folder = folder
      self.save_freq = save_freq
      self.model_name = model_name
      self.filepath = os.path.join(self.folder, self.model_name) + ".h5"
  \<close>
\<close>

definition default_save_freq :: int where
  "default_save_freq = 10"

definition default_model_name :: string where
  "default_model_name = ''landmarks_detection_model.h5''"

definition callback_init :: "int \<Rightarrow> string \<Rightarrow> int \<Rightarrow> string \<Rightarrow> 'm callback" where
  "callback_init nb_epochs fld sf name =
     \<lparr>epochs_left = nb_epochs, folder = fld, save_freq = sf, model_name = name,
      filepath = os_path_join fld name @ ''.h5'',
      begun = False, metrics = Map.empty, previous_metrics = Map.empty,
      current_epoch = 0, model_to_save = None\<rparr>"

text \<open>
  \<^verbatim>\<open>
  def on_train_begin(self, logs={}):
      self.metrics = {}
      self.previous_metrics = {}
      self.current_epoch = 0
      for metric in logs:
          self.metrics[metric] = []
          self.previous_metrics[metric] = []
  \<close>
\<close>

definition on_train_begin :: "'m callback \<Rightarrow> (string \<rightharpoonup> real) \<Rightarrow> 'm callback" where
  "on_train_begin cb logs =
     cb\<lparr>begun := True,
        metrics := (\<lambda>k. map_option (\<lambda>_. EmptyList) (logs k)),
        previous_metrics := (\<lambda>k. map_option (\<lambda>_. EmptyList) (logs k)),
        current_epoch := 0\<rparr>"

text \<open>
  \<^verbatim>\<open>round(self.metrics[key], 2)\<close> for a message: KeyError without the key, TypeError
  on a list.
\<close>

definition shown :: "(string \<rightharpoonup> mval) \<Rightarrow> string \<Rightarrow> callback_error option" where
  "shown m key =
     (case m key of
        None \<Rightarrow> Some (Raised KeyError)
      | Some EmptyList \<Rightarrow> Some (Raised TypeError)
      | Some (Num v) \<Rightarrow> None)"

text \<open>
  \<^verbatim>\<open>
  if 'mae' in self.metrics: ... self.metrics['mae'] ...
  elif 'mean_absolute_error' in self.metrics: ... self.metrics['mean_absolute_error'] ...
  else: ... self.metrics['loss'] ...
  \<close>
  and the same with the prefix \<^verbatim>\<open>val_\<close>. The result is the exception raised, if any.
\<close>

definition report :: "(string \<rightharpoonup> mval) \<Rightarrow> string \<Rightarrow> callback_error option" where
  "report m prefix =
     (if m (prefix @ ''mae'') \<noteq> None then shown m (prefix @ ''mae'')
      else if m (prefix @ ''mean_absolute_error'') \<noteq> None
      then shown m (prefix @ ''mean_absolute_error'')
      else shown m (prefix @ ''loss''))"

text \<open>
  \<^verbatim>\<open>self.metrics['val_loss'] < self.previous_metrics['val_loss']\<close>: two numbers compare,
  two empty lists compare as not smaller, a number and a list do not compare.
\<close>

definition val_loss_reduced ::
  "(string \<rightharpoonup> mval) \<Rightarrow> (string \<rightharpoonup> mval) \<Rightarrow> callback_error + bool" where
  "val_loss_reduced m p =
     (case m ''val_loss'' of
        None \<Rightarrow> Inl (Raised KeyError)
      | Some a \<Rightarrow>
          (case p ''val_loss'' of
             None \<Rightarrow> Inl (Raised KeyError)
           | Some b \<Rightarrow>
               (case (a, b) of
                  (Num x, Num y) \<Rightarrow> Inr (x < y)
                | (EmptyList, EmptyList) \<Rightarrow> Inr False
                | _ \<Rightarrow> Inl (Raised TypeError))))"

text \<open>
  \<^verbatim>\<open>
  def on_epoch_end(self, epoch, logs={}):
      self.previous_metrics = copy.deepcopy(self.metrics)
      for metric in logs:
          self.metrics[metric] = logs.get(metric)
      self.epochs_left = self.epochs_left - 1
      self.current_epoch = self.current_epoch + 1
      ...  (the messages)
      if self.current_epoch > 1:
          if self.metrics['val_loss'] < self.previous_metrics['val_loss']:
              self.model_to_save = copy.deepcopy(self.model)
          if self.epochs_left % self.save_freq == 0:
              self.model_to_save.save(self.filepath, overwrite=True)
      else:
          self.model_to_save = copy.deepcopy(self.model)
  \<close>
  The function takes the callback and the live model \<^verbatim>\<open>self.model\<close> as it is at the end
  of the epoch, and returns the callback and the files written by the call, each a path
  and the model saved there.
\<close>

definition on_epoch_end ::
  "'m callback \<Rightarrow> 'm \<Rightarrow> (string \<rightharpoonup> real)
     \<Rightarrow> callback_error + ('m callback \<times> (string \<times> 'm) list)" where
  "on_epoch_end cb live logs =
     (if \<not> begun cb then Inl AttributeError
      else
        let cb1 = cb\<lparr>previous_metrics := metrics cb,
                      metrics := (\<lambda>k. case logs k of Some v \<Rightarrow> Some (Num v) | None \<Rightarrow> metrics cb k),
                      epochs_left := epochs_left cb - 1,
                      current_epoch := current_epoch cb + 1\<rparr>
        in case report (metrics cb1) '''' of
             Some e \<Rightarrow> Inl e
           | None \<Rightarrow>
               (case report (metrics cb1) ''val_'' of
                  Some e \<Rightarrow> Inl e
                | None \<Rightarrow>
                    if 1 < current_epoch cb1
                    then
                      (case val_loss_reduced (metrics cb1) (previous_metrics cb1) of
                         Inl e \<Rightarrow> Inl e
                       | Inr reduced \<Rightarrow>
                           (let cb2 = (if reduced then cb1\<lparr>model_to_save := Some live\<rparr> else cb1)
                            in if save_freq cb2 = 0 then Inl (Raised ZeroDivisionError)
                               else if epochs_left cb2 mod save_freq cb2 = 0
                               then (case model_to_save cb2 of
                                       None \<Rightarrow> Inl AttributeError
                                     | Some snapshot \<Rightarrow> Inr (cb2, [(filepath cb2, snapshot)]))
                               else Inr (cb2, [])))
                    else Inr (cb1\<lparr>model_to_save := Some live\<rparr>, [])))"

text \<open>
  \<^verbatim>\<open>
  def on_train_end(self, logs={}):
      filepath = os.path.join(self.folder, self.model_name) + ".h5"
      self.model.save(filepath, overwrite=True)
  \<close>
\<close>

definition on_train_end :: "'m callback \<Rightarrow> 'm \<Rightarrow> 'm callback \<times> (string \<times> 'm) list" where
  "on_train_end cb live = (cb, [(os_path_join (folder cb) (model_name cb) @ ''.h5'', live)])"

text \<open>
  The epochs of one call of \<^verbatim>\<open>fit\<close>: each is the live model at the end of the epoch and
  the epoch's logs. The result is the callback after the last epoch and, epoch by epoch,
  the files written.
\<close>

fun run_epochs ::
  "'m callback \<Rightarrow> ('m \<times> (string \<rightharpoonup> real)) list
     \<Rightarrow> callback_error + ('m callback \<times> (string \<times> 'm) list list)" where
  "run_epochs cb [] = Inr (cb, [])"
| "run_epochs cb ((live, logs) # es) =
     (case on_epoch_end cb live logs of
        Inl e \<Rightarrow> Inl e
      | Inr (cb', ws) \<Rightarrow>
          (case run_epochs cb' es of
             Inl e \<Rightarrow> Inl e
           | Inr (cb'', wss) \<Rightarrow> Inr (cb'', ws # wss)))"

text \<open>
  \<^verbatim>\<open>save(path, overwrite=True)\<close> replaces whatever the path held. A disk is a map from
  paths to saved models.
\<close>

definition apply_writes :: "(string \<rightharpoonup> 'm) \<Rightarrow> (string \<times> 'm) list \<Rightarrow> (string \<rightharpoonup> 'm)" where
  "apply_writes disk ws = fold (\<lambda>w d. d(fst w \<mapsto> snd w)) ws disk"

text \<open>
  One training run as Keras drives the callback: \<^verbatim>\<open>on_train_begin\<close> with empty logs,
  \<^verbatim>\<open>on_epoch_end\<close> after every epoch, \<^verbatim>\<open>on_train_end\<close> with the model as the last
  epoch left it (\<open>initial\<close> when there was no epoch). The result is the disk at the end.
\<close>

definition training_run ::
  "'m callback \<Rightarrow> 'm \<Rightarrow> ('m \<times> (string \<rightharpoonup> real)) list \<Rightarrow> (string \<rightharpoonup> 'm)
     \<Rightarrow> callback_error + (string \<rightharpoonup> 'm)" where
  "training_run cb initial es disk =
     (case run_epochs (on_train_begin cb Map.empty) es of
        Inl e \<Rightarrow> Inl e
      | Inr (cb', wss) \<Rightarrow>
          Inr (apply_writes (apply_writes disk (concat wss))
                 (snd (on_train_end cb' (last (initial # map fst es))))))"

text \<open>
  The checkpoint policy in the specification's words: the first epoch's model is the
  baseline; after every later epoch the retained snapshot becomes that epoch's model when
  its validation loss is below the previous epoch's, and stays otherwise. An epoch is given
  by its model and its validation loss.
\<close>

fun track :: "'m \<Rightarrow> real \<Rightarrow> ('m \<times> real) list \<Rightarrow> 'm" where
  "track kept previous [] = kept"
| "track kept previous ((m, v) # es) = track (if v < previous then m else kept) v es"

fun retained_spec :: "('m \<times> real) list \<Rightarrow> 'm option" where
  "retained_spec [] = None"
| "retained_spec ((m, v) # es) = Some (track m v es)"

section \<open>The split into training and validation samples\<close>

text \<open>
  The part of \<^verbatim>\<open>training_data_preprocessing\<close> that separates the samples:
  \<^verbatim>\<open>
  df_landmarks_copy = df_landmarks.copy()
  df_landmarks_copy = df_landmarks_copy.dropna()
  df_landmarks_copy = df_landmarks_copy.reset_index(drop=True)
  df_landmarks_val = df_landmarks_copy.sample(int(test_size * len(df_landmarks_copy)), ignore_index=True).reset_index(drop=True)
  df_landmarks_train = df_landmarks_copy.drop(df_landmarks_val.index).reset_index(drop=True)
  \<close>
  Here the index labels of a dataframe matter, so a table is a list of rows, each with its
  index label.
\<close>

type_synonym row = "string \<times> (string \<Rightarrow> cell)"

type_synonym indexed_rows = "(nat \<times> row) list"

text \<open>\<^verbatim>\<open>dropna()\<close> drops every row with a missing value in some column.\<close>

definition dropna :: "string list \<Rightarrow> row list \<Rightarrow> row list" where
  "dropna cols rows = filter (\<lambda>r. \<forall>c \<in> set cols. snd r c \<noteq> NaN) rows"

text \<open>\<^verbatim>\<open>reset_index(drop=True)\<close> labels the rows 0, 1, 2, ... in their order.\<close>

definition reset_index :: "row list \<Rightarrow> indexed_rows" where
  "reset_index rows = zip [0..<length rows] rows"

text \<open>
  Drawing \<open>n\<close> rows at random without replacement. The random generator is the parameter
  \<open>rs\<close>, a list of natural numbers: each draw takes the next number (0 when the list is
  used up), modulo the number of rows left, as the position of the row drawn, and removes
  that row. Every selection and order of \<open>n\<close> distinct rows arises from some \<open>rs\<close>.
\<close>

fun draw :: "'a list \<Rightarrow> nat \<Rightarrow> nat list \<Rightarrow> 'a list" where
  "draw xs 0 rs = []"
| "draw [] (Suc n) rs = []"
| "draw (x # xs) (Suc n) rs =
     (let k = (case rs of [] \<Rightarrow> 0 | r # _ \<Rightarrow> r) mod length (x # xs)
      in (x # xs) ! k # draw (take k (x # xs) @ drop (Suc k) (x # xs)) n (tl rs))"

text \<open>
  \<^verbatim>\<open>sample(n, ignore_index=True)\<close>: ValueError for a negative \<open>n\<close> or one larger than the
  table; the rows drawn are labelled 0, 1, ..., n - 1.
\<close>

definition sample :: "indexed_rows \<Rightarrow> int \<Rightarrow> nat list \<Rightarrow> py_error + indexed_rows" where
  "sample rows n rs =
     (if n < 0 \<or> int (length rows) < n then Inl ValueError
      else Inr (reset_index (map snd (draw rows (nat n) rs))))"

text \<open>
  \<^verbatim>\<open>drop(labels)\<close>: KeyError when a label is not in the index, else the rows whose label
  is not among the given ones.
\<close>

definition drop_labels :: "indexed_rows \<Rightarrow> nat list \<Rightarrow> py_error + indexed_rows" where
  "drop_labels rows labels =
     (if \<exists>l \<in> set labels. l \<notin> fst ` set rows then Inl KeyError
      else Inr (filter (\<lambda>r. fst r \<notin> set labels) rows))"

text \<open>The result is the pair of the training rows and the validation rows.\<close>

definition split_train_val ::
  "dataframe \<Rightarrow> real \<Rightarrow> nat list \<Rightarrow> py_error + (indexed_rows \<times> indexed_rows)" where
  "split_train_val df_landmarks test_size rs =
     (let df_landmarks_copy = reset_index (dropna (df_columns df_landmarks) (df_rows df_landmarks))
      in case sample df_landmarks_copy
                (py_int (test_size * real (length df_landmarks_copy))) rs of
           Inl e \<Rightarrow> Inl e
         | Inr drawn \<Rightarrow>
             (let df_landmarks_val = reset_index (map snd drawn)
              in case drop_labels df_landmarks_copy (map fst df_landmarks_val) of
                   Inl e \<Rightarrow> Inl e
                 | Inr kept \<Rightarrow> Inr (reset_index (map snd kept), df_landmarks_val)))"

text \<open>The file names of the two subsets of a split.\<close>

definition split_names ::
  "py_error + (indexed_rows \<times> indexed_rows) \<Rightarrow> py_error + (string list \<times> string list)" where
  "split_names res =
     map_sum id (\<lambda>s. (map (\<lambda>r. fst (snd r)) (fst s), map (\<lambda>r. fst (snd r)) (snd s))) res"

text \<open>Four fully annotated samples.\<close>

definition ex_four :: dataframe where
  "ex_four =
     \<lparr>df_columns = [''L1''],
      df_rows = [(''a.tif'', \<lambda>_. Coord 1 1), (''b.tif'', \<lambda>_. Coord 2 2),
                 (''c.tif'', \<lambda>_. Coord 3 3), (''d.tif'', \<lambda>_. Coord 4 4)]\<rparr>"

section \<open>Loading a dataset: check_image_shape and import_data\<close>

text \<open>
  \<^verbatim>\<open>np.asarray(Image.open(path)).shape\<close>: an image file gives a 2D array \<open>(h, w)\<close> or,
  with several channels, a 3D array \<open>(h, w, c)\<close>. The loader and the prediction read the
  files through their shapes only, so a file system is a map from paths to the shape of
  the image stored there; opening a path it does not hold raises FileNotFoundError.
\<close>

datatype img_shape = Gray nat nat | Multi nat nat nat

type_synonym file_system = "string \<rightharpoonup> img_shape"

fun shape_0 :: "img_shape \<Rightarrow> nat" where
  "shape_0 (Gray h w) = h"
| "shape_0 (Multi h w c) = h"

fun shape_1 :: "img_shape \<Rightarrow> nat" where
  "shape_1 (Gray h w) = w"
| "shape_1 (Multi h w c) = w"

fun shape_size :: "img_shape \<Rightarrow> nat" where
  "shape_size (Gray h w) = h * w"
| "shape_size (Multi h w c) = h * w * c"

text \<open>The file table \<^verbatim>\<open>df_files\<close>: rows of \<^verbatim>\<open>file name\<close> and \<^verbatim>\<open>full path\<close>.\<close>

type_synonym files_table = "(string \<times> string) list"

text \<open>
  \<^verbatim>\<open>
  for img_path in df_files["full path"]:
      img = Image.open(img_path)
      img = np.asarray(img)
      if img_shape != img.shape:
          return None
  return img_shape
  \<close>
\<close>

fun check_loop :: "file_system \<Rightarrow> img_shape \<Rightarrow> string list \<Rightarrow> py_error + img_shape option" where
  "check_loop fs img_shape [] = Inr (Some img_shape)"
| "check_loop fs img_shape (img_path # rest) =
     (case fs img_path of
        None \<Rightarrow> Inl FileNotFoundError
      | Some s \<Rightarrow> if img_shape \<noteq> s then Inr None else check_loop fs img_shape rest)"

text \<open>
  \<^verbatim>\<open>
  img_path = df_files["full path"].iloc[0]
  img = Image.open(img_path)
  img = np.asarray(img)
  img_shape = img.shape
  \<close>
  and then the loop over all paths. \<^verbatim>\<open>iloc[0]\<close> on an empty table raises IndexError.
\<close>

definition check_image_shape :: "file_system \<Rightarrow> files_table \<Rightarrow> py_error + img_shape option" where
  "check_image_shape fs df_files =
     (case map snd df_files of
        [] \<Rightarrow> Inl IndexError
      | img_path # _ \<Rightarrow>
          (case fs img_path of
             None \<Rightarrow> Inl FileNotFoundError
           | Some img_shape \<Rightarrow> check_loop fs img_shape (map snd df_files)))"

text \<open>
  \<^verbatim>\<open>df_landmarks["full path"] = os.path.join(folder, "") + df_landmarks["file name"]\<close>.
  The rows are then looked up by that path: the table below is the landmark table with
  the full path as the key of each row.
\<close>

definition with_full_path :: "string \<Rightarrow> dataframe \<Rightarrow> dataframe" where
  "with_full_path fld df_landmarks =
     df_landmarks\<lparr>df_rows := map (\<lambda>r. (os_path_join fld '''' @ fst r, snd r)) (df_rows df_landmarks)\<rparr>"

text \<open>
  \<^verbatim>\<open>
  landmark_positions = []
  for lmk in df_model["name"].unique():
      lmk_xy = ast.literal_eval(df_landmarks.loc[df_landmarks["full path"]==image_path, lmk].values[0])
      landmark_positions += lmk_xy
  \<close>
  The column \<^verbatim>\<open>full path\<close> holds paths, which \<^verbatim>\<open>literal_eval\<close> does not read.
\<close>

fun landmark_positions :: "dataframe \<Rightarrow> string \<Rightarrow> string list \<Rightarrow> py_error + real list" where
  "landmark_positions dfp image_path [] = Inr []"
| "landmark_positions dfp image_path (lmk # lmks) =
     (if lmk = ''full path'' then Inl ValueError
      else case loc_first dfp image_path lmk of
        Inl e \<Rightarrow> Inl e
      | Inr c \<Rightarrow>
          (case literal_eval c of
             Inl e \<Rightarrow> Inl e
           | Inr xy \<Rightarrow>
               (case landmark_positions dfp image_path lmks of
                  Inl e \<Rightarrow> Inl e
                | Inr rest \<Rightarrow> Inr (of_int (fst xy) # of_int (snd xy) # rest))))"

text \<open>
  \<^verbatim>\<open>
  for image_path in df_files["full path"].unique():
      image = Image.open(image_path)
      ...
      all_landmarks_positions.append(landmark_positions)
  \<close>
\<close>

fun load_rows ::
  "file_system \<Rightarrow> dataframe \<Rightarrow> string list \<Rightarrow> string list \<Rightarrow> py_error + real list list" where
  "load_rows fs dfp names [] = Inr []"
| "load_rows fs dfp names (image_path # rest) =
     (case fs image_path of
        None \<Rightarrow> Inl FileNotFoundError
      | Some s \<Rightarrow>
          (case landmark_positions dfp image_path names of
             Inl e \<Rightarrow> Inl e
           | Inr positions \<Rightarrow>
               (case load_rows fs dfp names rest of
                  Inl e \<Rightarrow> Inl e
                | Inr rows \<Rightarrow> Inr (positions # rows))))"

text \<open>
  What \<^verbatim>\<open>import_data\<close> returns: the array \<open>X\<close>, given by its shape and the paths of the
  images stacked in it, in order, and the array \<open>y\<close>, given by its rows.
\<close>

record arrays =
  x_shape :: "nat list"
  x_paths :: "string list"
  y_rows :: "real list list"

text \<open>
  \<^verbatim>\<open>
  img_shape = check_image_shape(df_files)
  if img_shape:
      ...
      X = np.asarray(images_array, dtype = 'float').reshape(len(df_landmarks["full path"].unique()), img_shape[0], img_shape[1], 1)
      y = np.array(all_landmarks_positions, dtype = 'float')
      return X, y
  return None
  \<close>
  A shape is a non-empty tuple, so \<^verbatim>\<open>if img_shape\<close> asks whether it is not None.
  \<^verbatim>\<open>reshape\<close> raises ValueError unless the number of samples is kept.
\<close>

definition import_data ::
  "file_system \<Rightarrow> string \<Rightarrow> dataframe \<Rightarrow> files_table \<Rightarrow> model_table
     \<Rightarrow> py_error + arrays option" where
  "import_data fs fld df_landmarks df_files df_model =
     (let dfp = with_full_path fld df_landmarks
      in case check_image_shape fs df_files of
           Inl e \<Rightarrow> Inl e
         | Inr None \<Rightarrow> Inr None
         | Inr (Some img_shape) \<Rightarrow>
             (case load_rows fs dfp (model_names df_model) (unique (map snd df_files)) of
                Inl e \<Rightarrow> Inl e
              | Inr rows \<Rightarrow>
                  (let n = length (unique (map fst (df_rows dfp)))
                   in if length (unique (map snd df_files)) * shape_size img_shape
                           = n * shape_0 img_shape * shape_1 img_shape * 1
                      then Inr (Some \<lparr>x_shape = [n, shape_0 img_shape, shape_1 img_shape, 1],
                                      x_paths = unique (map snd df_files),
                                      y_rows = rows\<rparr>)
                      else Inl ValueError)))"

text \<open>
  \<^verbatim>\<open>import_train_val_data\<close> passes the landmark table read from the folder as the file
  table too: \<^verbatim>\<open>import_data(folder, df_landmarks, df_landmarks, df_model)\<close>. The two
  arguments are then one object, so the file table's \<^verbatim>\<open>full path\<close> column is the one
  \<^verbatim>\<open>import_data\<close> has just written.
\<close>

definition files_of_landmarks :: "string \<Rightarrow> dataframe \<Rightarrow> files_table" where
  "files_of_landmarks fld df_landmarks =
     map (\<lambda>r. (fst r, os_path_join fld '''' @ fst r)) (df_rows df_landmarks)"

text \<open>
  Sample data: two files under \<^verbatim>\<open>train/\<close>, the table of their landmarks, a disk where
  both images are 4 by 6, and one where the second is 4 by 5.
\<close>

definition ex_files :: files_table where
  "ex_files = [(''a.tif'', ''train/a.tif''), (''b.tif'', ''train/b.tif'')]"

definition ex_fs_uniform :: file_system where
  "ex_fs_uniform = [''train/a.tif'' \<mapsto> Gray 4 6, ''train/b.tif'' \<mapsto> Gray 4 6]"

definition ex_fs_mixed :: file_system where
  "ex_fs_mixed = [''train/a.tif'' \<mapsto> Gray 4 6, ''train/b.tif'' \<mapsto> Gray 4 5]"

text \<open>The shape of \<open>X\<close> and the rows of \<open>y\<close> in a result of \<^verbatim>\<open>import_data\<close>.\<close>

definition loaded_x_shape :: "py_error + arrays option \<Rightarrow> py_error + nat list option" where
  "loaded_x_shape res = map_sum id (map_option x_shape) res"

definition loaded_y :: "py_error + arrays option \<Rightarrow> py_error + real list list option" where
  "loaded_y res = map_sum id (map_option y_rows) res"

section \<open>Prediction: predict_landmarks\<close>

text \<open>
  \<^verbatim>\<open>
  for image_name in df_files["full path"].unique():
      image = Image.open(image_name)
      image = np.asarray(image)
      if normalization:
          image = image / np.mean(image[image > 0])
      resized_image = resize(image, (model_height, model_width), preserve_range=True, anti_aliasing=True)
      images.append(resized_image)
  \<close>
  Normalisation changes the samples, not the shape; the loop is modelled by the shapes of
  the images it opens. As in \<open>image_downsample\<close>, \<^verbatim>\<open>resize\<close> raises OverflowError when
  asked for an axis of length 0.
\<close>

fun open_all :: "file_system \<Rightarrow> nat \<Rightarrow> nat \<Rightarrow> string list \<Rightarrow> py_error + img_shape list" where
  "open_all fs model_height model_width [] = Inr []"
| "open_all fs model_height model_width (image_name # rest) =
     (case fs image_name of
        None \<Rightarrow> Inl FileNotFoundError
      | Some s \<Rightarrow>
          if model_height = 0 \<or> model_width = 0 then Inl OverflowError
          else (case open_all fs model_height model_width rest of
                  Inl e \<Rightarrow> Inl e
                | Inr shapes \<Rightarrow> Inr (s # shapes)))"

text \<open>
  The shape of \<^verbatim>\<open>resize(image, (model_height, model_width))\<close>: the two leading axes
  are resized, a channel axis is kept.
\<close>

fun resized :: "nat \<Rightarrow> nat \<Rightarrow> img_shape \<Rightarrow> img_shape" where
  "resized model_height model_width (Gray h w) = Gray model_height model_width"
| "resized model_height model_width (Multi h w c) = Multi model_height model_width c"

text \<open>
  \<^verbatim>\<open>X = np.asarray(images).reshape(len(df_files["full path"].unique()), model_height, model_width, 1)\<close>
  needs images of one shape and keeps the number of samples, else ValueError.
\<close>

definition batch_fits :: "nat \<Rightarrow> nat \<Rightarrow> img_shape list \<Rightarrow> bool" where
  "batch_fits model_height model_width shapes =
     ((\<forall>s \<in> set shapes. resized model_height model_width s
                          = resized model_height model_width (hd shapes)) \<and>
      sum_list (map (\<lambda>s. shape_size (resized model_height model_width s)) shapes)
        = length shapes * model_height * model_width * 1)"

text \<open>
  \<^verbatim>\<open>
  for i in range(len(df_files["file name"])):
      for j in range(len(landmark_names)):
          lmk = landmark_names[j]
          x = int(prediction[i, j, 0])
          y = int(prediction[i, j, 1])
          df_pred_lmk.loc[df_pred_lmk["file name"] == df_files["file name"][i], lmk] = str([x, y])
  \<close>
  \<open>cellv i j\<close> is the cell \<^verbatim>\<open>[x, y]\<close> for file \<open>i\<close> and landmark \<open>j\<close>.
\<close>

definition write_predictions ::
  "string list \<Rightarrow> string list \<Rightarrow> (nat \<Rightarrow> nat \<Rightarrow> cell) \<Rightarrow> dataframe \<Rightarrow> dataframe" where
  "write_predictions file_names landmark_names cellv df_pred_lmk =
     fold (\<lambda>i df. fold (\<lambda>j df'. loc_set df' (file_names ! i) (landmark_names ! j) (cellv i j))
                     [0..<length landmark_names] df)
       [0..<length file_names] df_pred_lmk"

text \<open>
  \<^verbatim>\<open>
  model_width = model.input_shape[2]
  model_height = model.input_shape[1]
  ...  (the loop over the images)
  image_width = image.shape[1]
  image_height = image.shape[0]
  binning_w = image_width / model_width
  binning_h = image_height / model_height
  X = np.asarray(images).reshape(...)
  train_predicts = model.predict(X)
  prediction = train_predicts[:, :, np.newaxis]
  prediction = prediction.reshape((len(df_files["file name"]), len(df_model["target"]), 2))
  prediction[:, :, 0] = binning_w * prediction[:, :, 0]
  prediction[:, :, 1] = binning_h * prediction[:, :, 1]
  landmark_names = df_model['name'].unique()
  df_pred_lmk = df_files[['file name']].copy()
  for landmark in landmark_names:
      df_pred_lmk[landmark] = np.nan
  ...  (the loops that write the cells)
  \<close>
  After the loop \<^verbatim>\<open>image\<close> is the last image opened; with no image the name is unbound.
  The network's answer \<^verbatim>\<open>model.predict(X)\<close> is the parameter \<open>train_predicts\<close>, its
  rows in order; \<^verbatim>\<open>reshape\<close> raises ValueError unless the number of values is kept.
  The result is the table that is written to the CSV file. The model assumes that no
  landmark is named \<^verbatim>\<open>file name\<close>.

  \<^verbatim>\<open>binning_w\<close> and \<^verbatim>\<open>binning_h\<close> are Python floats, quotients of two ints, rounded by
  \<open>rnd\<close>. \<^verbatim>\<open>prediction\<close> is an array of the network's float type (float32 for a Keras
  model); numpy multiplies a Python float with such an array in the array's type: the
  factor is converted to that type and each product is rounded to it, by \<open>rnd_array\<close>. The
  products are stored back in the array, and \<^verbatim>\<open>int\<close> truncates what is stored.
\<close>

definition predict_landmarks ::
  "rounding \<Rightarrow> rounding \<Rightarrow> file_system \<Rightarrow> files_table \<Rightarrow> model_table \<Rightarrow> nat \<Rightarrow> nat
     \<Rightarrow> real list list \<Rightarrow> py_error + dataframe" where
  "predict_landmarks rnd rnd_array fs df_files df_model model_height model_width train_predicts =
     (case open_all fs model_height model_width (unique (map snd df_files)) of
        Inl e \<Rightarrow> Inl e
      | Inr shapes \<Rightarrow>
          if shapes = [] then Inl NameError
          else if model_width = 0 \<or> model_height = 0 then Inl ZeroDivisionError
          else
            let img = last shapes;
                binning_w = rnd (real (shape_1 img) / real model_width);
                binning_h = rnd (real (shape_0 img) / real model_height);
                flat = concat train_predicts;
                n_targets = length df_model;
                landmark_names = model_names df_model
            in if \<not> batch_fits model_height model_width shapes then Inl ValueError
               else if length flat \<noteq> length df_files * n_targets * 2 then Inl ValueError
               else Inr (write_predictions (map fst df_files) landmark_names
                           (\<lambda>i j. Coord
                              (py_int (rnd_array (rnd_array binning_w
                                         * flat ! ((i * n_targets + j) * 2))))
                              (py_int (rnd_array (rnd_array binning_h
                                         * flat ! ((i * n_targets + j) * 2 + 1)))))
                           \<lparr>df_columns = landmark_names,
                            df_rows = map (\<lambda>r. (fst r, \<lambda>_. NaN)) df_files\<rparr>))"



definition ex_one_model :: model_table where
  "ex_one_model = [(''L1'', ''[10, 10]'')]"

definition ex_two_files :: files_table where
  "ex_two_files = [(''a.tif'', ''raw/a.tif''), (''b.tif'', ''raw/b.tif'')]"

definition ex_two_fs :: file_system where
  "ex_two_fs = [''raw/a.tif'' \<mapsto> Gray 256 256, ''raw/b.tif'' \<mapsto> Gray 512 512]"






section \<open>Auxiliary notions and sample data\<close>


text \<open>
  The rounding of the IEEE 754 binary formats, for a result in the normal range of a
  format with \<open>p\<close> significant bits: to the nearest multiple of the unit in the last place
  of the result's binade, a tie to the even multiple. \<open>binary64\<close> is the rounding of Python
  floats, \<open>binary32\<close> that of numpy's float32.
\<close>

definition ieee_round :: "nat \<Rightarrow> real \<Rightarrow> real" where
  "ieee_round p x =
     (if x = 0 then 0
      else let u = 2 powr (of_int \<lfloor>log 2 \<bar>x\<bar>\<rfloor> - real (p - 1))
           in of_int (py_round (x / u)) * u)"

definition binary64 :: rounding where
  "binary64 = ieee_round 53"

definition binary32 :: rounding where
  "binary32 = ieee_round 24"

text \<open>
  The values of \<^verbatim>\<open>math.cos\<close> and \<^verbatim>\<open>math.sin\<close> at the double \<^verbatim>\<open>90 * math.pi / 180\<close>, as
  glibc returns them (\<^verbatim>\<open>6.123233995736766e-17\<close> and \<^verbatim>\<open>1.0\<close>), and at 0.
\<close>

definition libm_cos :: "real \<Rightarrow> real" where
  "libm_cos t = (if t = math_pi / 2 then 4967757600021511 / 2 ^ 106 else 1)"

definition libm_sin :: "real \<Rightarrow> real" where
  "libm_sin t = (if t = math_pi / 2 then 1 else 0)"

text \<open>Reading one cell, or the shape, of a result that may be an exception.\<close>

definition cell_of :: "py_error + dataframe \<Rightarrow> string \<Rightarrow> string \<Rightarrow> py_error + cell" where
  "cell_of res file_name lmk = (case res of Inl e \<Rightarrow> Inl e | Inr df \<Rightarrow> loc_first df file_name lmk)"

definition shape_of :: "py_error + array2d \<Rightarrow> py_error + nat \<times> nat" where
  "shape_of res = (case res of Inl e \<Rightarrow> Inl e | Inr a \<Rightarrow> Inr (nrows a, ncols a))"


text \<open>A 5 by 7 image, a vocabulary of two landmarks and a table of two annotated files.\<close>

definition ex_image :: array2d where
  "ex_image = \<lparr>nrows = 5, ncols = 7, pix = (\<lambda>i j. real (i + j))\<rparr>"

definition ex_model :: model_table where
  "ex_model = [(''L1'', ''[10, 10]''), (''L2'', ''[20, 20]'')]"

definition ex_landmarks :: dataframe where
  "ex_landmarks =
     \<lparr>df_columns = [''L1'', ''L2''],
      df_rows = [(''a.tif'', (\<lambda>_. NaN)(''L1'' := Coord 7 9, ''L2'' := Coord 4 6)),
                 (''b.tif'', (\<lambda>_. NaN)(''L1'' := Coord 3 5, ''L2'' := Coord 8 2))]\<rparr>"

definition pix_of :: "py_error + array2d \<Rightarrow> nat \<Rightarrow> nat \<Rightarrow> py_error + real" where
  "pix_of res i j = (case res of Inl e \<Rightarrow> Inl e | Inr a \<Rightarrow> Inr (pix a i j))"

text \<open>
  A stand-in for \<^verbatim>\<open>ndimage.rotate\<close> whose every sample is the angle it was called
  with: it shows which angle \<open>rotate_image\<close> passes on.
\<close>

definition angle_probe :: rotation where
  "angle_probe img angle cval i j = angle"

text \<open>A nearest-neighbour stand-in for the interpolation of \<^verbatim>\<open>ndimage.zoom\<close>.\<close>

definition nearest_zoom :: zooming where
  "nearest_zoom img zoom cval i j = pix img (nat \<lfloor>real i / zoom\<rfloor>) (nat \<lfloor>real j / zoom\<rfloor>)"

text \<open>A 5 by 6 image and a table with landmarks on its left edge.\<close>

definition ex_image_even :: array2d where
  "ex_image_even = \<lparr>nrows = 5, ncols = 6, pix = (\<lambda>i j. real (i + j))\<rparr>"

definition ex_landmarks_edge :: dataframe where
  "ex_landmarks_edge =
     \<lparr>df_columns = [''L1'', ''L2''],
      df_rows = [(''a.tif'', (\<lambda>_. NaN)(''L1'' := Coord 0 0, ''L2'' := Coord 0 1)),
                 (''b.tif'', (\<lambda>_. NaN)(''L1'' := Coord 3 5, ''L2'' := Coord 8 2))]\<rparr>"

text \<open>The sample table after binning the landmarks of \<^verbatim>\<open>a.tif\<close> by 2.\<close>

definition ex_landmarks_binned :: dataframe where
  "ex_landmarks_binned =
     \<lparr>df_columns = [''L1'', ''L2''],
      df_rows = [(''a.tif'', (\<lambda>_. NaN)(''L1'' := Coord 3 4, ''L2'' := Coord 2 3)),
                 (''b.tif'', (\<lambda>_. NaN)(''L1'' := Coord 3 5, ''L2'' := Coord 8 2))]\<rparr>"

section \<open>Auxiliary notions and sample data for the training monitor\<close>

text \<open>The epochs of a run as the policy sees them: each model with its logged validation loss.\<close>

definition val_losses :: "('m \<times> (string \<rightharpoonup> real)) list \<Rightarrow> ('m \<times> real) list" where
  "val_losses es = map (\<lambda>e. (fst e, the (snd e ''val_loss''))) es"

text \<open>No value of the dictionary is an empty list.\<close>

definition numbers_only :: "(string \<rightharpoonup> mval) \<Rightarrow> bool" where
  "numbers_only m = (\<forall>k. m k \<noteq> Some EmptyList)"

text \<open>
  The logs of an epoch with validation loss \<open>v\<close>, and a run of five epochs whose models are
  numbered 1 to 5, with validation losses 0.5, 0.5, 0.3, 0.3, 0.6.
\<close>

definition ex_logs :: "real \<Rightarrow> (string \<rightharpoonup> real)" where
  "ex_logs v = [''loss'' \<mapsto> 1, ''mae'' \<mapsto> 1, ''val_loss'' \<mapsto> v, ''val_mae'' \<mapsto> 1]"

definition ex_epochs :: "(nat \<times> (string \<rightharpoonup> real)) list" where
  "ex_epochs = [(1, ex_logs 0.5), (2, ex_logs 0.5), (3, ex_logs 0.3), (4, ex_logs 0.3),
                (5, ex_logs 0.6)]"

text \<open>What a run left behind: the retained snapshot, the files written per epoch, the paths
  written (the final save included), and what a disk holds at a path.\<close>

definition saved_snapshot ::
  "callback_error + ('m callback \<times> (string \<times> 'm) list list) \<Rightarrow> callback_error + 'm option" where
  "saved_snapshot res = map_sum id (\<lambda>r. model_to_save (fst r)) res"

definition epoch_writes ::
  "callback_error + ('m callback \<times> (string \<times> 'm) list list)
     \<Rightarrow> callback_error + (string \<times> 'm) list list" where
  "epoch_writes res = map_sum id snd res"

definition written_paths ::
  "callback_error + ('m callback \<times> (string \<times> 'm) list list) \<Rightarrow> 'm
     \<Rightarrow> callback_error + string list" where
  "written_paths res final =
     map_sum id (\<lambda>r. map fst (concat (snd r) @ snd (on_train_end (fst r) final))) res"

definition disk_at :: "callback_error + (string \<rightharpoonup> 'm) \<Rightarrow> string \<Rightarrow> callback_error + 'm option" where
  "disk_at res path = map_sum id (\<lambda>d. d path) res"

section \<open>Evaluating the IEEE rounding\<close>

text \<open>
  How \<open>ieee_round\<close> is evaluated on a given number: when \<open>2 ^ (p - 1) \<le> \<bar>x\<bar> * 2 ^ k\<close> and
  \<open>\<bar>x\<bar> * 2 ^ k < 2 ^ p\<close>, the unit in the last place of \<open>x\<close> is \<open>1 / 2 ^ k\<close>.
\<close>

lemma ieee_round_fine:
  assumes p: "0 < p" and lo: "2 ^ (p - 1) \<le> \<bar>x\<bar> * 2 ^ k" and hi: "\<bar>x\<bar> * 2 ^ k < 2 ^ p"
  shows "ieee_round p x = of_int (py_round (x * 2 ^ k)) / 2 ^ k"
proof -
  have pos: "(0::real) < 2 ^ (p - 1)" by simp
  have x0: "x \<noteq> 0"
  proof
    assume "x = 0"
    then have "(2::real) ^ (p - 1) \<le> 0" using lo by simp
    then show False using pos by linarith
  qed
  then have ax: "0 < \<bar>x\<bar>" by simp
  let ?e = "int (p - 1) - int k"
  have e1: "2 powr real_of_int ?e = 2 ^ (p - 1) / 2 ^ k"
    by (simp add: powr_diff powr_realpow)
  have "real_of_int (?e + 1) = real p - real k" using p by (simp add: of_nat_diff)
  then have e2: "2 powr real_of_int (?e + 1) = 2 ^ p / 2 ^ k"
    by (simp add: powr_diff powr_realpow)
  have "2 powr real_of_int ?e \<le> \<bar>x\<bar>"
    unfolding e1 using lo by (simp add: pos_divide_le_eq)
  moreover have "\<bar>x\<bar> < 2 powr real_of_int (?e + 1)"
    unfolding e2 using hi by (simp add: pos_less_divide_eq)
  ultimately have fl: "\<lfloor>log 2 \<bar>x\<bar>\<rfloor> = ?e"
    using ax by (simp add: floor_log_eq_powr_iff)
  have u: "2 powr (of_int \<lfloor>log 2 \<bar>x\<bar>\<rfloor> - real (p - 1)) = 1 / 2 ^ k"
    unfolding fl by (simp add: powr_minus_divide powr_realpow)
  show ?thesis
    unfolding ieee_round_def Let_def u using x0 by simp
qed

lemma binary64_at:
  "2 ^ 52 \<le> \<bar>x\<bar> * 2 ^ k \<Longrightarrow> \<bar>x\<bar> * 2 ^ k < 2 ^ 53 \<Longrightarrow>
   binary64 x = of_int (py_round (x * 2 ^ k)) / 2 ^ k"
  unfolding binary64_def using ieee_round_fine [of 53 x k] by simp

lemma binary32_at:
  "2 ^ 23 \<le> \<bar>x\<bar> * 2 ^ k \<Longrightarrow> \<bar>x\<bar> * 2 ^ k < 2 ^ 24 \<Longrightarrow>
   binary32 x = of_int (py_round (x * 2 ^ k)) / 2 ^ k"
  unfolding binary32_def using ieee_round_fine [of 24 x k] by simp

lemma binary64_zero: "binary64 0 = 0"
  by (simp add: binary64_def ieee_round_def)

section \<open>Properties of the landmark loop\<close>

lemma distinct_unique: "distinct (unique xs)"
  by (simp add: unique_def)

lemma set_unique: "set (unique xs) = set xs"
  by (simp add: unique_def)

lemma loc_set_rows_length: "length (df_rows (loc_set df f l v)) = length (df_rows df)"
  by (simp add: loc_set_def)

lemma loc_set_columns: "l \<in> set (df_columns df) \<Longrightarrow> df_columns (loc_set df f l v) = df_columns df"
  by (simp add: loc_set_def)

lemma loc_first_column: "loc_first df f l = Inr c \<Longrightarrow> l \<in> set (df_columns df) \<and> l \<noteq> ''file name''"
  by (auto simp: loc_first_def split: if_splits)

lemma loc_set_row:
  "i < length (df_rows df) \<Longrightarrow>
   df_rows (loc_set df f l v) ! i =
     (if fst (df_rows df ! i) = f then (fst (df_rows df ! i), (snd (df_rows df ! i))(l := v))
      else df_rows df ! i)"
  by (simp add: loc_set_def)

lemma for_each_landmark_frame:
  "for_each_landmark g f df lmks = Inr df' \<Longrightarrow>
   df_columns df' = df_columns df \<and> length (df_rows df') = length (df_rows df) \<and>
   (\<forall>i < length (df_rows df).
      fst (df_rows df' ! i) = fst (df_rows df ! i) \<and>
      (fst (df_rows df ! i) \<noteq> f \<longrightarrow> df_rows df' ! i = df_rows df ! i) \<and>
      (\<forall>c. c \<notin> set lmks \<longrightarrow> snd (df_rows df' ! i) c = snd (df_rows df ! i) c))"
proof (induction lmks arbitrary: df)
  case Nil
  then show ?case by simp
next
  case (Cons l lmks)
  from Cons.prems obtain c xy v where
    c: "loc_first df f l = Inr c" and v: "g xy = Inr v"
    and rest: "for_each_landmark g f (loc_set df f l v) lmks = Inr df'"
    by (auto split: sum.splits)
  have col: "l \<in> set (df_columns df)" using loc_first_column [OF c] by simp
  note IH = Cons.IH [OF rest]
  show ?case
    using IH by (auto simp: loc_set_columns [OF col] loc_set_rows_length loc_set_row)
qed

lemma filter_loc_set:
  "filter (\<lambda>r. fst r = f) (df_rows (loc_set df f l v)) =
   map (\<lambda>r. (fst r, (snd r)(l := v))) (filter (\<lambda>r. fst r = f) (df_rows df))"
  by (induction "df_rows df" arbitrary: df) (auto simp: loc_set_def filter_map o_def intro!: map_cong filter_cong)




lemma loc_first_loc_set_other:
  "l \<noteq> h \<Longrightarrow> h \<in> set (df_columns df) \<Longrightarrow> loc_first (loc_set df f h v) f l = loc_first df f l"
  by (cases "filter (\<lambda>r. fst r = f) (df_rows df)")
     (auto simp: loc_first_def filter_loc_set loc_set_columns)

lemma for_each_landmark_value:
  "for_each_landmark g f df lmks = Inr df' \<Longrightarrow> distinct lmks \<Longrightarrow> l \<in> set lmks \<Longrightarrow>
   r \<in> set (df_rows df') \<Longrightarrow> fst r = f \<Longrightarrow>
   \<exists>x y. loc_first df f l = Inr (Coord x y) \<and> g (x, y) = Inr (snd r l)"
proof (induction lmks arbitrary: df)
  case Nil
  then show ?case by simp
next
  case (Cons h lmks)
  from Cons.prems(1) obtain c xy v where
    c: "loc_first df f h = Inr c" and le: "literal_eval c = Inr xy" and v: "g xy = Inr v"
    and rest: "for_each_landmark g f (loc_set df f h v) lmks = Inr df'"
    by (auto split: sum.splits)
  have col: "h \<in> set (df_columns df)" using loc_first_column [OF c] by simp
  obtain x y where xy: "xy = (x, y)" by (cases xy)
  have cc: "c = Coord x y" using le xy by (cases c) auto
  show ?case
  proof (cases "l = h")
    case True
    from Cons.prems(4) obtain i where i: "i < length (df_rows df')" "df_rows df' ! i = r"
      by (auto simp: in_set_conv_nth)
    note fr = for_each_landmark_frame [OF rest]
    have i': "i < length (df_rows df)" using fr i by (simp add: loc_set_rows_length)
    have hn: "h \<notin> set lmks" using Cons.prems(2) by simp
    have "fst (df_rows df ! i) = f"
      using fr i i' Cons.prems(5) by (auto simp: loc_set_rows_length loc_set_row split: if_splits)
    then have "snd r h = v"
      using fr i i' hn by (auto simp: loc_set_rows_length loc_set_row)
    then show ?thesis using True c cc v xy by simp
  next
    case False
    then have "l \<in> set lmks" using Cons.prems(3) by simp
    from Cons.IH [OF rest _ this Cons.prems(4,5)] Cons.prems(2)
    show ?thesis by (simp add: loc_first_loc_set_other [OF False col])
  qed
qed

lemma for_each_landmark_fails:
  "for_each_landmark g f df lmks = Inl e \<Longrightarrow> distinct lmks \<Longrightarrow>
   \<exists>l \<in> set lmks. \<forall>x y v. \<not> (loc_first df f l = Inr (Coord x y) \<and> g (x, y) = Inr v)"
proof (induction lmks arbitrary: df)
  case Nil
  then show ?case by simp
next
  case (Cons h lmks)
  show ?case
  proof (cases "\<exists>x y v. loc_first df f h = Inr (Coord x y) \<and> g (x, y) = Inr v")
    case False
    then show ?thesis by auto
  next
    case True
    then obtain x y v where c: "loc_first df f h = Inr (Coord x y)" and v: "g (x, y) = Inr v"
      by blast
    have col: "h \<in> set (df_columns df)" using loc_first_column [OF c] by simp
    from Cons.prems(1) c v have rest: "for_each_landmark g f (loc_set df f h v) lmks = Inl e"
      by simp
    from Cons.IH [OF rest] Cons.prems(2) obtain l where
      l: "l \<in> set lmks" "\<forall>x y v'. \<not> (loc_first (loc_set df f h v) f l = Inr (Coord x y) \<and> g (x, y) = Inr v')"
      by auto
    have "l \<noteq> h" using l Cons.prems(2) by auto
    then show ?thesis using l by (auto simp: loc_first_loc_set_other [OF _ col])
  qed
qed

lemma model_names_ex: "model_names ex_model = [''L1'', ''L2'']"
  by (simp add: model_names_def ex_model_def unique_def)


section \<open>Downsampling\<close>




lemma positive_samples_nonempty:
  "positive_samples img \<noteq> [] \<longleftrightarrow> (\<exists>i < nrows img. \<exists>j < ncols img. 0 < pix img i j)"
  by (simp add: positive_samples_def filter_empty_conv Bex_def)

lemma mean_positive_cases:
  "mean_positive img =
     (if \<exists>i < nrows img. \<exists>j < ncols img. 0 < pix img i j
      then Inr (sum_list (positive_samples img) / real (length (positive_samples img)))
      else Inl NotANumber)"
  using positive_samples_nonempty [of img] by (auto simp: mean_positive_def Let_def)

section \<open>What the landmark transformations leave alone\<close>

text \<open>
  Claim C9. Whenever \<open>landmarks_downsample\<close>, \<open>rotate_landmarks\<close> or \<open>scale_landmarks\<close>
  returns a table, that table has the columns, the number of rows and the file names of
  the table it was given; every row whose file name differs from the given one is
  unchanged, and in every row each column outside the landmark vocabulary is unchanged.
\<close>

theorem landmark_transformations_frame:
  assumes "landmarks_downsample filename df df_model binning = Inr df' \<or>
           rotate_landmarks rnd fcos fsin img angle df df_model filename = Inr df' \<or>
           scale_landmarks img zoom df df_model filename = Inr df'"
  shows "df_columns df' = df_columns df \<and> length (df_rows df') = length (df_rows df) \<and>
         (\<forall>i < length (df_rows df).
            fst (df_rows df' ! i) = fst (df_rows df ! i) \<and>
            (fst (df_rows df ! i) \<noteq> filename \<longrightarrow> df_rows df' ! i = df_rows df ! i) \<and>
            (\<forall>c. c \<notin> set (model_names df_model) \<longrightarrow>
                 snd (df_rows df' ! i) c = snd (df_rows df ! i) c))"
  using assms
  unfolding landmarks_downsample_def rotate_landmarks_def scale_landmarks_def Let_def
  by (elim disjE) (rule for_each_landmark_frame, assumption)+

lemma ex_downsample_2:
  "landmarks_downsample ''a.tif'' ex_landmarks ex_model 2 = Inr ex_landmarks_binned"
  by (simp add: landmarks_downsample_def model_names_ex ex_landmarks_def loc_first_def
        loc_set_def downsample_xy_def py_int_def ex_landmarks_binned_def fun_eq_iff)

theorem landmark_transformations_frame_witness:
  "landmarks_downsample ''a.tif'' ex_landmarks ex_model 2 = Inr ex_landmarks_binned \<and>
   df_columns ex_landmarks_binned = df_columns ex_landmarks \<and>
   df_rows ex_landmarks_binned ! 1 = df_rows ex_landmarks ! 1 \<and>
   snd (df_rows ex_landmarks_binned ! 0) ''quality'' = snd (df_rows ex_landmarks ! 0) ''quality''"
  using landmark_transformations_frame [where filename = "''a.tif''" and df = ex_landmarks
      and df_model = ex_model and binning = 2 and df' = ex_landmarks_binned, OF disjI1, OF ex_downsample_2]
  by (simp add: ex_downsample_2) (simp add: ex_landmarks_def ex_landmarks_binned_def)

section \<open>Rotation\<close>

lemma py_round_of_int: "py_round (of_int n) = n"
  by (simp add: py_round_def)

lemma rotate_image_result:
  "(case rotate_image nd_rotate img angle of
      Inr out \<Rightarrow>
        nrows out = nrows img \<and> ncols out = ncols img \<and>
        pix out = nd_rotate img (- angle)
                    (sum_list (positive_samples img) / real (length (positive_samples img)))
    | Inl e \<Rightarrow> positive_samples img = [] \<and> e = NotANumber)"
  by (simp add: rotate_image_def mean_positive_def Let_def)

text \<open>
  With operations that do not round and the exact cosine and sine, \<open>rotate_xy\<close> is the
  rotation of \<open>(x, y)\<close> about \<open>(ox, oy)\<close> by the angle \<open>t\<close>, rounded.
\<close>

lemma rotate_xy_exact:
  "rotate_xy (\<lambda>v. v) cos sin ox oy t (x, y) =
     Inr (Coord (py_round (ox + cos t * (of_int x - ox) - sin t * (of_int y - oy)))
                (py_round (oy + sin t * (of_int x - ox) + cos t * (of_int y - oy))))"
  by (simp add: rotate_xy_def Let_def)

text \<open>
  Claim C5. \<open>rotate_image\<close> hands the library rotation the negated angle (in degrees)
  and the mean of the strictly positive samples as fill value, and keeps the shape; it
  fails only when no sample is positive. \<open>rotate_landmarks\<close> sets every vocabulary
  landmark \<open>(x, y)\<close> of the file's rows to \<^verbatim>\<open>round\<close> of
  \<open>ox + cos t (x - ox) - sin t (y - oy)\<close> and of \<open>oy + sin t (x - ox) + cos t (y - oy)\<close>, with
  \<open>t\<close> the given angle itself (not negated) times \<^verbatim>\<open>math.pi\<close> over 180 and \<open>(ox, oy)\<close>
  half the width and half the height, every operation being a float operation, rounded
  by \<open>rnd\<close>, in the order in which Python evaluates the expression. It fails exactly when
  some vocabulary landmark of the file cannot be read as a coordinate pair. \<^verbatim>\<open>round\<close>
  returns a nearest integer, and the even one of two nearest.
\<close>

theorem rotate_image_and_landmarks:
  "(case rotate_image nd_rotate img angle of
      Inr out \<Rightarrow>
        nrows out = nrows img \<and> ncols out = ncols img \<and>
        pix out = nd_rotate img (- angle)
                    (sum_list (positive_samples img) / real (length (positive_samples img)))
    | Inl e \<Rightarrow> positive_samples img = [] \<and> e = NotANumber) \<and>
   (let ox = rnd (real (ncols img) / 2);
        oy = rnd (real (nrows img) / 2);
        t = rnd (rnd (angle * math_pi) / 180)
    in case rotate_landmarks rnd fcos fsin img angle df df_model filename of
         Inr df' \<Rightarrow>
           \<forall>r \<in> set (df_rows df'). fst r = filename \<longrightarrow>
             (\<forall>l \<in> set (model_names df_model). \<exists>x y.
                loc_first df filename l = Inr (Coord x y) \<and>
                snd r l =
                  Coord (py_round (rnd (rnd (ox + rnd (fcos t * rnd (rnd (of_int x) - ox)))
                                          - rnd (fsin t * rnd (rnd (of_int y) - oy)))))
                        (py_round (rnd (rnd (oy + rnd (fsin t * rnd (rnd (of_int x) - ox)))
                                          + rnd (fcos t * rnd (rnd (of_int y) - oy))))))
       | Inl e \<Rightarrow>
           \<exists>l \<in> set (model_names df_model). \<forall>x y. loc_first df filename l \<noteq> Inr (Coord x y)) \<and>
   (\<forall>v. \<bar>of_int (py_round v) - v\<bar> \<le> 1 / 2 \<and>
        (v - of_int \<lfloor>v\<rfloor> = 1 / 2 \<longrightarrow> even (py_round v)))"
proof (intro conjI)
  show "(case rotate_image nd_rotate img angle of
      Inr out \<Rightarrow>
        nrows out = nrows img \<and> ncols out = ncols img \<and>
        pix out = nd_rotate img (- angle)
                    (sum_list (positive_samples img) / real (length (positive_samples img)))
    | Inl e \<Rightarrow> positive_samples img = [] \<and> e = NotANumber)"
    by (rule rotate_image_result)
next
  show "\<forall>v. \<bar>of_int (py_round v) - v\<bar> \<le> 1 / 2 \<and>
        (v - of_int \<lfloor>v\<rfloor> = 1 / 2 \<longrightarrow> even (py_round v))"
  proof (intro allI conjI impI)
    fix v :: real
    show "\<bar>of_int (py_round v) - v\<bar> \<le> 1 / 2"
      unfolding py_round_def Let_def by (auto; linarith)
    show "even (py_round v)" if "v - of_int \<lfloor>v\<rfloor> = 1 / 2"
      using that by (auto simp: py_round_def Let_def)
  qed
next
  define ox where "ox = rnd (real (ncols img) / 2)"
  define oy where "oy = rnd (real (nrows img) / 2)"
  define t where "t = rnd (rnd (angle * math_pi) / 180)"
  let ?g = "rotate_xy rnd fcos fsin ox oy t"
  have dist: "distinct (model_names df_model)" by (simp add: model_names_def distinct_unique)
  have run: "rotate_landmarks rnd fcos fsin img angle df df_model filename =
             for_each_landmark ?g filename df (model_names df_model)"
    by (simp add: rotate_landmarks_def Let_def ox_def oy_def t_def)
  have "(case rotate_landmarks rnd fcos fsin img angle df df_model filename of
         Inr df' \<Rightarrow>
           \<forall>r \<in> set (df_rows df'). fst r = filename \<longrightarrow>
             (\<forall>l \<in> set (model_names df_model). \<exists>x y.
                loc_first df filename l = Inr (Coord x y) \<and>
                snd r l =
                  Coord (py_round (rnd (rnd (ox + rnd (fcos t * rnd (rnd (of_int x) - ox)))
                                          - rnd (fsin t * rnd (rnd (of_int y) - oy)))))
                        (py_round (rnd (rnd (oy + rnd (fsin t * rnd (rnd (of_int x) - ox)))
                                          + rnd (fcos t * rnd (rnd (of_int y) - oy))))))
       | Inl e \<Rightarrow>
           \<exists>l \<in> set (model_names df_model). \<forall>x y. loc_first df filename l \<noteq> Inr (Coord x y))"
  proof (cases "rotate_landmarks rnd fcos fsin img angle df df_model filename")
    case (Inl e)
    from for_each_landmark_fails [OF Inl [unfolded run] dist]
    show ?thesis using Inl by (simp add: rotate_xy_def Let_def)
  next
    case (Inr df')
    have "\<exists>x y. loc_first df filename l = Inr (Coord x y) \<and>
             snd r l =
                  Coord (py_round (rnd (rnd (ox + rnd (fcos t * rnd (rnd (of_int x) - ox)))
                                          - rnd (fsin t * rnd (rnd (of_int y) - oy)))))
                        (py_round (rnd (rnd (oy + rnd (fsin t * rnd (rnd (of_int x) - ox)))
                                          + rnd (fcos t * rnd (rnd (of_int y) - oy)))))"
      if "r \<in> set (df_rows df')" "fst r = filename" "l \<in> set (model_names df_model)" for r l
      using for_each_landmark_value [OF Inr [unfolded run] dist that(3,1,2)]
      by (auto simp: rotate_xy_def Let_def)
    then show ?thesis using Inr by auto
  qed
  then show "let ox = rnd (real (ncols img) / 2);
        oy = rnd (real (nrows img) / 2);
        t = rnd (rnd (angle * math_pi) / 180)
    in case rotate_landmarks rnd fcos fsin img angle df df_model filename of
         Inr df' \<Rightarrow>
           \<forall>r \<in> set (df_rows df'). fst r = filename \<longrightarrow>
             (\<forall>l \<in> set (model_names df_model). \<exists>x y.
                loc_first df filename l = Inr (Coord x y) \<and>
                snd r l =
                  Coord (py_round (rnd (rnd (ox + rnd (fcos t * rnd (rnd (of_int x) - ox)))
                                          - rnd (fsin t * rnd (rnd (of_int y) - oy)))))
                        (py_round (rnd (rnd (oy + rnd (fsin t * rnd (rnd (of_int x) - ox)))
                                          + rnd (fcos t * rnd (rnd (of_int y) - oy))))))
       | Inl e \<Rightarrow>
           \<exists>l \<in> set (model_names df_model). \<forall>x y. loc_first df filename l \<noteq> Inr (Coord x y)"
    unfolding Let_def ox_def oy_def t_def .
qed

lemma ex_image_positive: "positive_samples ex_image \<noteq> []"
  unfolding positive_samples_nonempty
  by (rule exI [of _ 1], simp add: ex_image_def, rule exI [of _ 1], simp)

lemma ex_image_even_positive: "positive_samples ex_image_even \<noteq> []"
  unfolding positive_samples_nonempty
  by (rule exI [of _ 1], simp add: ex_image_even_def, rule exI [of _ 1], simp)

text \<open>
  The sample run: a quarter turn of the 5 by 6 image. In doubles,
  \<^verbatim>\<open>90 * math.pi / 180\<close> is \<^verbatim>\<open>math.pi / 2\<close>, the midpoint is \<open>(3, 2.5)\<close>, and the
  landmarks \<open>[0, 0]\<close> and \<open>[0, 1]\<close> go to \<open>(5.5, -0.5000000000000001)\<close> and
  \<open>(4.5, -0.5000000000000001)\<close>, which \<^verbatim>\<open>round\<close> makes \<open>[6, -1]\<close> and \<open>[4, -1]\<close>.
\<close>

lemma ex_quarter_turn: "binary64 (binary64 (90 * math_pi) / 180) = math_pi / 2"
proof -
  have a: "binary64 (90 * math_pi) = 4974073419394997 / 2 ^ 44"
    using binary64_at [of "90 * math_pi" 44] by (simp add: math_pi_def py_round_def)
  have b: "binary64 (4974073419394997 / 2 ^ 44 / 180) = 884279719003555 / 2 ^ 49"
    using binary64_at [of "4974073419394997 / 2 ^ 44 / 180" 52] by (simp add: py_round_def)
  show ?thesis
    using a b by (simp add: math_pi_def del: eq_divide_eq_numeral1 divide_eq_eq_numeral1)
qed

lemma ex_midpoint: "binary64 3 = 3" "binary64 (5 / 2) = 5 / 2"
  using binary64_at [of 3 51] binary64_at [of "5 / 2" 51] by (simp_all add: py_round_def)

lemma ex_rotate_xy_origin:
  "rotate_xy binary64 libm_cos libm_sin 3 (5 / 2) (math_pi / 2) (0, 0) = Inr (Coord 6 (- 1))"
proof -
  have a: "binary64 (- 3) = - 3"
    using binary64_at [of "- 3" 51] by (simp add: py_round_def)
  have b: "binary64 (- (5 / 2)) = - (5 / 2)"
    using binary64_at [of "- (5 / 2)" 51] by (simp add: py_round_def)
  have t1: "binary64 (4967757600021511 / 2 ^ 106 * (- 3)) = - (3725818200016133 / 2 ^ 104)"
    using binary64_at [of "4967757600021511 / 2 ^ 106 * (- 3)" 105] by (simp add: py_round_def)
  have s1: "binary64 (3 + - (3725818200016133 / 2 ^ 104)) = 3"
    using binary64_at [of "3 + - (3725818200016133 / 2 ^ 104)" 51] by (simp add: py_round_def)
  have q: "binary64 (11 / 2) = 11 / 2"
    using binary64_at [of "11 / 2" 50] by (simp add: py_round_def)
  have v1: "binary64 (- (1 / 2)) = - (1 / 2)"
    using binary64_at [of "- (1 / 2)" 53] by (simp add: py_round_def)
  have u2: "binary64 (4967757600021511 / 2 ^ 106 * (- (5 / 2))) = - (6209697000026889 / 2 ^ 105)"
    using binary64_at [of "4967757600021511 / 2 ^ 106 * (- (5 / 2))" 105]
    by (simp add: py_round_def)
  have r: "binary64 (- (1 / 2) + - (6209697000026889 / 2 ^ 105)) = - (4503599627370497 / 2 ^ 53)"
    using binary64_at [of "- (1 / 2) + - (6209697000026889 / 2 ^ 105)" 53]
    by (simp add: py_round_def)
  show ?thesis
    using a b t1 s1 q v1 u2 r
    by (simp add: rotate_xy_def libm_cos_def libm_sin_def binary64_zero py_round_def
          del: eq_divide_eq_numeral1 divide_eq_eq_numeral1)
qed

lemma ex_rotate_xy_edge:
  "rotate_xy binary64 libm_cos libm_sin 3 (5 / 2) (math_pi / 2) (0, 1) = Inr (Coord 4 (- 1))"
proof -
  have one: "binary64 1 = 1"
    using binary64_at [of 1 52] by (simp add: py_round_def)
  have a: "binary64 (- 3) = - 3"
    using binary64_at [of "- 3" 51] by (simp add: py_round_def)
  have b: "binary64 (- (3 / 2)) = - (3 / 2)"
    using binary64_at [of "- (3 / 2)" 52] by (simp add: py_round_def)
  have t1: "binary64 (4967757600021511 / 2 ^ 106 * (- 3)) = - (3725818200016133 / 2 ^ 104)"
    using binary64_at [of "4967757600021511 / 2 ^ 106 * (- 3)" 105] by (simp add: py_round_def)
  have s1: "binary64 (3 + - (3725818200016133 / 2 ^ 104)) = 3"
    using binary64_at [of "3 + - (3725818200016133 / 2 ^ 104)" 51] by (simp add: py_round_def)
  have q: "binary64 (9 / 2) = 9 / 2"
    using binary64_at [of "9 / 2" 50] by (simp add: py_round_def)
  have v1: "binary64 (- (1 / 2)) = - (1 / 2)"
    using binary64_at [of "- (1 / 2)" 53] by (simp add: py_round_def)
  have u2: "binary64 (4967757600021511 / 2 ^ 106 * (- (3 / 2))) = - (3725818200016133 / 2 ^ 105)"
    using binary64_at [of "4967757600021511 / 2 ^ 106 * (- (3 / 2))" 106]
    by (simp add: py_round_def)
  have r: "binary64 (- (1 / 2) + - (3725818200016133 / 2 ^ 105)) = - (4503599627370497 / 2 ^ 53)"
    using binary64_at [of "- (1 / 2) + - (3725818200016133 / 2 ^ 105)" 53]
    by (simp add: py_round_def)
  show ?thesis
    using one a b t1 s1 q v1 u2 r
    by (simp add: rotate_xy_def libm_cos_def libm_sin_def binary64_zero py_round_def
          del: eq_divide_eq_numeral1 divide_eq_eq_numeral1)
qed

theorem rotate_image_and_landmarks_witness:
  "shape_of (rotate_image angle_probe ex_image_even 90) = Inr (5, 6) \<and>
   pix_of (rotate_image angle_probe ex_image_even 90) 0 0 = Inr (- 90) \<and>
   cell_of (rotate_landmarks binary64 libm_cos libm_sin ex_image_even 90 ex_landmarks_edge
              ex_model ''a.tif'') ''a.tif'' ''L1'' = Inr (Coord 6 (- 1)) \<and>
   cell_of (rotate_landmarks binary64 libm_cos libm_sin ex_image_even 90 ex_landmarks_edge
              ex_model ''a.tif'') ''a.tif'' ''L2'' = Inr (Coord 4 (- 1)) \<and>
   cell_of (rotate_landmarks binary64 libm_cos libm_sin ex_image_even 90 ex_landmarks_edge
              ex_model ''a.tif'') ''b.tif'' ''L1'' = Inr (Coord 3 5) \<and>
   py_round (11 / 2) = 6 \<and> py_round (9 / 2) = 4 \<and>
   py_round (- (4503599627370497 / 2 ^ 53)) = - 1"
  using rotate_image_and_landmarks [where nd_rotate = angle_probe and img = ex_image_even
      and angle = 90 and rnd = binary64 and fcos = libm_cos and fsin = libm_sin
      and df = ex_landmarks_edge and df_model = ex_model and filename = "''a.tif''"]
    ex_image_even_positive
  by (simp add: rotate_image_def mean_positive_def Let_def shape_of_def pix_of_def
        angle_probe_def rotate_landmarks_def model_names_ex loc_first_def loc_set_def
        ex_quarter_turn ex_midpoint ex_rotate_xy_origin ex_rotate_xy_edge cell_of_def
        py_round_def ex_landmarks_edge_def, simp add: ex_image_even_def ex_midpoint
        ex_rotate_xy_origin ex_rotate_xy_edge loc_set_def loc_first_def)

section \<open>Scaling\<close>

lemma nd_zoom_one:
  "nd_zoom spline img 1 c = Inr \<lparr>nrows = nrows img, ncols = ncols img, pix = spline img 1 c\<rparr>"
proof -
  have "py_round (real n) = int n" for n
    using py_round_of_int [of "int n"] by simp
  then show ?thesis by (simp add: nd_zoom_def)
qed

lemma slice_range_whole: "slice_range 0 (int n) n = (0, n)"
  by (simp add: slice_range_def clip_bound_def)

lemma scale_image_one:
  assumes pos: "\<exists>i < nrows img. \<exists>j < ncols img. 0 < pix img i j"
    and lib: "\<forall>c. \<forall>i < nrows img. \<forall>j < ncols img. spline img 1 c i j = pix img i j"
  shows "\<exists>out. scale_image spline img 1 = Inr out \<and>
           nrows out = nrows img \<and> ncols out = ncols img \<and>
           (\<forall>i < nrows img. \<forall>j < ncols img. pix out i j = pix img i j)"
proof -
  obtain av where av: "mean_positive img = Inr av"
    using pos by (simp add: mean_positive_cases)
  have "scale_image spline img 1 =
          slice_assign \<lparr>nrows = nrows img, ncols = ncols img, pix = (\<lambda>i j. 1 * av)\<rparr>
            0 (0 + int (nrows img)) 0 (0 + int (ncols img))
            \<lparr>nrows = nrows img, ncols = ncols img, pix = spline img 1 av\<rparr>"
    by (simp add: scale_image_def av nd_zoom_one)
  also have "\<dots> = Inr \<lparr>nrows = nrows img, ncols = ncols img,
                 pix = (\<lambda>i j. if i < nrows img \<and> j < ncols img
                          then spline img 1 av (if nrows img = 1 then 0 else i)
                                 (if ncols img = 1 then 0 else j)
                          else 1 * av)\<rparr>"
    by (auto simp: slice_assign_def slice_range_whole Let_def fun_eq_iff)
  finally show ?thesis using lib by auto
qed

lemma filter_unique_key:
  "distinct (map fst rows) \<Longrightarrow> i < length rows \<Longrightarrow> fst (rows ! i) = f \<Longrightarrow>
   filter (\<lambda>r. fst r = f) rows = [rows ! i]"
proof (induction rows arbitrary: i)
  case Nil
  then show ?case by simp
next
  case (Cons r rs)
  show ?case
  proof (cases i)
    case 0
    then have "fst r = f" using Cons.prems by simp
    moreover have "filter (\<lambda>r. fst r = f) rs = []"
    proof -
      have "fst r \<notin> fst ` set rs" using Cons.prems(1) by simp
      then have "\<forall>x \<in> set rs. fst x \<noteq> f" using \<open>fst r = f\<close> by (metis imageI)
      then show ?thesis by (simp add: filter_empty_conv)
    qed
    ultimately show ?thesis using 0 by simp
  next
    case (Suc k)
    then have k: "k < length rs" "fst (rs ! k) = f" using Cons.prems by simp_all
    then have "f \<in> fst ` set rs" by (metis nth_mem imageI)
    then have "fst r \<noteq> f" using Cons.prems(1) by auto
    then show ?thesis using Cons.IH [OF _ k] Cons.prems(1) Suc by simp
  qed
qed

lemma for_each_landmark_identity:
  assumes run: "for_each_landmark g f df lmks = Inr df'"
    and dist: "distinct lmks"
    and keys: "distinct (map fst (df_rows df))"
    and idg: "\<And>x y. g (x, y) = Inr (Coord x y)"
  shows "df' = df"
proof -
  note fr = for_each_landmark_frame [OF run]
  have rows: "df_rows df' ! i = df_rows df ! i" if i: "i < length (df_rows df)" for i
  proof (cases "fst (df_rows df ! i) = f")
    case False
    then show ?thesis using fr i by simp
  next
    case True
    have first: "filter (\<lambda>r. fst r = f) (df_rows df) = [df_rows df ! i]"
      by (rule filter_unique_key [OF keys i True])
    have "snd (df_rows df' ! i) c = snd (df_rows df ! i) c" for c
    proof (cases "c \<in> set lmks")
      case False
      then show ?thesis using fr i by simp
    next
      case c: True
      have mem: "df_rows df' ! i \<in> set (df_rows df')" using fr i by simp
      have key: "fst (df_rows df' ! i) = f" using fr i True by simp
      from for_each_landmark_value [OF run dist c mem key] obtain x y where
        "loc_first df f c = Inr (Coord x y)" "g (x, y) = Inr (snd (df_rows df' ! i) c)"
        by blast
      then show ?thesis using first idg by (auto simp: loc_first_def split: if_splits)
    qed
    then have "snd (df_rows df' ! i) = snd (df_rows df ! i)" by (rule ext)
    moreover have "fst (df_rows df' ! i) = fst (df_rows df ! i)" using fr i by simp
    ultimately show ?thesis by (simp add: prod_eq_iff)
  qed
  have "df_rows df' = df_rows df"
    using fr rows by (intro nth_equalityI) auto
  then show ?thesis using fr by simp
qed

text \<open>
  Claim C7. Take an image with a strictly positive sample, an interpolation that at zoom
  factor 1 returns the samples it was given (the library's part), and a landmark table
  with one row per file name. Then \<open>scale_image\<close> with zoom 1.0 returns an image of the same
  shape with the same samples, the landmark formula with zoom 1.0 returns every integer
  point unchanged, and \<open>scale_landmarks\<close> returns the table unchanged (it fails exactly when
  some vocabulary landmark of the file cannot be read as a coordinate pair).
\<close>

theorem scale_by_one_unchanged:
  assumes pos: "\<exists>i < nrows img. \<exists>j < ncols img. 0 < pix img i j"
    and lib: "\<forall>c. \<forall>i < nrows img. \<forall>j < ncols img. spline img 1 c i j = pix img i j"
    and keys: "distinct (map fst (df_rows df))"
  shows "(\<exists>out. scale_image spline img 1 = Inr out \<and>
            nrows out = nrows img \<and> ncols out = ncols img \<and>
            (\<forall>i < nrows img. \<forall>j < ncols img. pix out i j = pix img i j)) \<and>
         (\<forall>x y. scale_xy (center_x img) (center_y img) 1 (x, y) = Inr (Coord x y)) \<and>
         (case scale_landmarks img 1 df df_model filename of
            Inr df' \<Rightarrow> df' = df
          | Inl e \<Rightarrow>
              \<exists>l \<in> set (model_names df_model). \<forall>x y. loc_first df filename l \<noteq> Inr (Coord x y))"
proof (intro conjI)
  show "\<exists>out. scale_image spline img 1 = Inr out \<and>
            nrows out = nrows img \<and> ncols out = ncols img \<and>
            (\<forall>i < nrows img. \<forall>j < ncols img. pix out i j = pix img i j)"
    by (rule scale_image_one [where spline = spline and img = img, OF pos lib])
next
  show idg: "\<forall>x y. scale_xy (center_x img) (center_y img) 1 (x, y) = Inr (Coord x y)"
    by (simp add: scale_xy_def py_round_of_int)
  have dist: "distinct (model_names df_model)" by (simp add: model_names_def distinct_unique)
  show "(case scale_landmarks img 1 df df_model filename of
            Inr df' \<Rightarrow> df' = df
          | Inl e \<Rightarrow>
              \<exists>l \<in> set (model_names df_model). \<forall>x y. loc_first df filename l \<noteq> Inr (Coord x y))"
  proof (cases "scale_landmarks img 1 df df_model filename")
    case (Inl e)
    from for_each_landmark_fails [OF Inl [unfolded scale_landmarks_def] dist]
    show ?thesis using Inl idg by simp
  next
    case (Inr df')
    have "df' = df"
      using for_each_landmark_identity [OF Inr [unfolded scale_landmarks_def] dist keys] idg
      by simp
    then show ?thesis using Inr by simp
  qed
qed

theorem scale_by_one_unchanged_witness:
  "shape_of (scale_image nearest_zoom ex_image 1) = Inr (5, 7) \<and>
   pix_of (scale_image nearest_zoom ex_image 1) 2 3 = Inr 5 \<and>
   scale_landmarks ex_image 1 ex_landmarks ex_model ''a.tif'' = Inr ex_landmarks"
proof -
  have pos: "\<exists>i < nrows ex_image. \<exists>j < ncols ex_image. 0 < pix ex_image i j"
    using ex_image_positive by (simp add: positive_samples_nonempty)
  have lib: "\<forall>c. \<forall>i < nrows ex_image. \<forall>j < ncols ex_image.
               nearest_zoom ex_image 1 c i j = pix ex_image i j"
    by (simp add: nearest_zoom_def)
  have keys: "distinct (map fst (df_rows ex_landmarks))"
    by (simp add: ex_landmarks_def)
  note th = scale_by_one_unchanged [where spline = nearest_zoom and img = ex_image
      and df = ex_landmarks and df_model = ex_model
      and filename = "''a.tif''", OF pos lib keys]
  from th obtain out where out: "scale_image nearest_zoom ex_image 1 = Inr out"
    "nrows out = nrows ex_image" "ncols out = ncols ex_image"
    "\<forall>i < nrows ex_image. \<forall>j < ncols ex_image. pix out i j = pix ex_image i j"
    by blast
  have "pix out 2 3 = pix ex_image 2 3" using out(4) by (simp add: ex_image_def)
  then have img: "shape_of (scale_image nearest_zoom ex_image 1) = Inr (5, 7)"
    "pix_of (scale_image nearest_zoom ex_image 1) 2 3 = Inr 5"
    using out by (simp_all add: shape_of_def pix_of_def ex_image_def)
  have readable: "\<forall>l \<in> set (model_names ex_model). \<exists>x y.
                    loc_first ex_landmarks ''a.tif'' l = Inr (Coord x y)"
    by (simp add: model_names_ex loc_first_def ex_landmarks_def)
  have "scale_landmarks ex_image 1 ex_landmarks ex_model ''a.tif'' = Inr ex_landmarks"
    using th readable by (auto split: sum.splits)
  then show ?thesis using img by simp
qed

section \<open>Properties of the training monitor\<close>

lemma on_epoch_end_static:
  assumes "on_epoch_end cb live logs = Inr (cb', ws)"
  shows "folder cb' = folder cb \<and> model_name cb' = model_name cb \<and>
         filepath cb' = filepath cb \<and> save_freq cb' = save_freq cb \<and> begun cb' \<and>
         epochs_left cb' = epochs_left cb - 1 \<and> current_epoch cb' = current_epoch cb + 1 \<and>
         (\<forall>w \<in> set ws. fst w = filepath cb)"
  using assms
  by (auto simp: on_epoch_end_def Let_def split: if_splits option.splits sum.splits)

lemma run_epochs_static:
  "run_epochs cb es = Inr (cb', wss) \<Longrightarrow>
   folder cb' = folder cb \<and> model_name cb' = model_name cb \<and>
   filepath cb' = filepath cb \<and> save_freq cb' = save_freq cb \<and>
   epochs_left cb' = epochs_left cb - int (length es) \<and>
   current_epoch cb' = current_epoch cb + int (length es) \<and>
   length wss = length es \<and>
   (\<forall>w \<in> set (concat wss). fst w = filepath cb)"
proof (induction es arbitrary: cb wss)
  case Nil
  then show ?case by simp
next
  case (Cons e es)
  obtain live logs where e: "e = (live, logs)" by (cases e)
  from Cons.prems e obtain cb1 ws wss1 where
    step: "on_epoch_end cb live logs = Inr (cb1, ws)"
    and rest: "run_epochs cb1 es = Inr (cb', wss1)" and wss: "wss = ws # wss1"
    by (auto split: sum.splits prod.splits)
  from on_epoch_end_static [OF step] Cons.IH [OF rest] wss
  show ?case by auto
qed

lemma report_numbers:
  "numbers_only m \<Longrightarrow> m (prefix @ ''loss'') \<noteq> None \<Longrightarrow> report m prefix = None"
  by (auto simp: report_def shown_def numbers_only_def split: option.splits mval.splits)

lemma on_epoch_end_first:
  assumes "begun cb" "current_epoch cb = 0" "numbers_only (metrics cb)"
    and "logs ''loss'' \<noteq> None" "logs ''val_loss'' = Some v"
  shows "\<exists>cb'. on_epoch_end cb live logs = Inr (cb', []) \<and> model_to_save cb' = Some live \<and>
           numbers_only (metrics cb') \<and> metrics cb' ''val_loss'' = Some (Num v)"
proof -
  let ?m = "\<lambda>k. case logs k of Some v \<Rightarrow> Some (Num v) | None \<Rightarrow> metrics cb k"
  have n: "numbers_only ?m"
    using assms(3) by (auto simp: numbers_only_def split: option.splits)
  have "report ?m '''' = None" "report ?m ''val_'' = None"
    using assms(4,5) by (auto intro!: report_numbers n split: option.splits)
  then show ?thesis
    using assms n by (simp add: on_epoch_end_def Let_def)
qed

lemma on_epoch_end_later:
  assumes "begun cb" "1 \<le> current_epoch cb" "numbers_only (metrics cb)"
    and "metrics cb ''val_loss'' = Some (Num pv)" "model_to_save cb = Some kept"
    and "save_freq cb \<noteq> 0"
    and "logs ''loss'' \<noteq> None" "logs ''val_loss'' = Some v"
  shows "\<exists>cb'. on_epoch_end cb live logs =
             Inr (cb', if (epochs_left cb - 1) mod save_freq cb = 0
                       then [(filepath cb, if v < pv then live else kept)] else []) \<and>
           model_to_save cb' = Some (if v < pv then live else kept) \<and>
           numbers_only (metrics cb') \<and> metrics cb' ''val_loss'' = Some (Num v)"
proof -
  let ?m = "\<lambda>k. case logs k of Some v \<Rightarrow> Some (Num v) | None \<Rightarrow> metrics cb k"
  have n: "numbers_only ?m"
    using assms(3) by (auto simp: numbers_only_def split: option.splits)
  have r: "report ?m '''' = None" "report ?m ''val_'' = None"
    using assms(7,8) by (auto intro!: report_numbers n split: option.splits)
  have c: "val_loss_reduced ?m (metrics cb) = Inr (v < pv)"
    using assms(4,8) by (simp add: val_loss_reduced_def)
  show ?thesis
    using assms(1,2,5,6,8) n r c by (simp add: on_epoch_end_def Let_def)
qed

lemma run_epochs_later:
  assumes "begun cb" "1 \<le> current_epoch cb" "numbers_only (metrics cb)"
    and "metrics cb ''val_loss'' = Some (Num pv)" "model_to_save cb = Some kept"
    and "save_freq cb \<noteq> 0"
    and "\<forall>e \<in> set es. snd e ''loss'' \<noteq> None \<and> snd e ''val_loss'' \<noteq> None"
  shows "\<exists>cb' wss. run_epochs cb es = Inr (cb', wss) \<and>
           model_to_save cb' = Some (track kept pv (val_losses es)) \<and>
           (\<forall>i < length es. wss ! i =
              (if (epochs_left cb - int (Suc i)) mod save_freq cb = 0
               then [(filepath cb, track kept pv (val_losses (take (Suc i) es)))] else []))"
  using assms
proof (induction es arbitrary: cb pv kept)
  case Nil
  then show ?case by (simp add: val_losses_def)
next
  case (Cons e es)
  obtain live logs where e: "e = (live, logs)" by (cases e)
  from Cons.prems(7) e obtain v where v: "logs ''loss'' \<noteq> None" "logs ''val_loss'' = Some v"
    by auto
  let ?kept = "if v < pv then live else kept"
  from on_epoch_end_later [OF Cons.prems(1-6) v, of live] obtain cb1 where
    step: "on_epoch_end cb live logs =
             Inr (cb1, if (epochs_left cb - 1) mod save_freq cb = 0
                       then [(filepath cb, ?kept)] else [])"
    and cb1: "model_to_save cb1 = Some ?kept" "numbers_only (metrics cb1)"
             "metrics cb1 ''val_loss'' = Some (Num v)"
    by blast
  note st = on_epoch_end_static [OF step]
  have pre: "begun cb1" "1 \<le> current_epoch cb1" "save_freq cb1 \<noteq> 0"
    using st Cons.prems(2,6) by simp_all
  have ok: "\<forall>e \<in> set es. snd e ''loss'' \<noteq> None \<and> snd e ''val_loss'' \<noteq> None"
    using Cons.prems(7) by simp
  from Cons.IH [OF pre(1,2) cb1(2,3,1) pre(3) ok] obtain cb' wss where
    rest: "run_epochs cb1 es = Inr (cb', wss)"
    and kept': "model_to_save cb' = Some (track ?kept v (val_losses es))"
    and ws': "\<forall>i < length es. wss ! i =
              (if (epochs_left cb1 - int (Suc i)) mod save_freq cb1 = 0
               then [(filepath cb1, track ?kept v (val_losses (take (Suc i) es)))] else [])"
    by blast
  have tr: "track kept pv (val_losses (e # xs)) = track ?kept v (val_losses xs)" for xs
    using e v by (simp add: val_losses_def)
  have el: "epochs_left cb1 - int (Suc j) = epochs_left cb - int (Suc (Suc j))" for j
    using st by simp
  let ?wss = "(if (epochs_left cb - 1) mod save_freq cb = 0
                       then [(filepath cb, ?kept)] else []) # wss"
  have run: "run_epochs cb (e # es) = Inr (cb', ?wss)"
    using e step rest by simp
  have "?wss ! i =
              (if (epochs_left cb - int (Suc i)) mod save_freq cb = 0
               then [(filepath cb, track kept pv (val_losses (take (Suc i) (e # es))))] else [])"
    if i: "i < length (e # es)" for i
  proof (cases i)
    case 0
    have "track kept pv (val_losses (take (Suc 0) (e # es))) = ?kept"
      using tr [of "[]"] by (simp add: val_losses_def)
    then show ?thesis using 0 by simp
  next
    case (Suc j)
    then have "j < length es" using i by simp
    with ws' have "wss ! j = (if (epochs_left cb1 - int (Suc j)) mod save_freq cb1 = 0
               then [(filepath cb1, track ?kept v (val_losses (take (Suc j) es)))] else [])"
      by blast
    then show ?thesis
      unfolding Suc el using st tr [of "take (Suc j) es"] by simp
  qed
  then have all: "\<forall>i < length (e # es). ?wss ! i =
              (if (epochs_left cb - int (Suc i)) mod save_freq cb = 0
               then [(filepath cb, track kept pv (val_losses (take (Suc i) (e # es))))] else [])"
    by blast
  have k: "model_to_save cb' = Some (track kept pv (val_losses (e # es)))"
    using kept' tr [of es] by simp
  show ?case using run k all by blast
qed

lemma begin_state:
  "begun (on_train_begin (callback_init N fld sf name) Map.empty)"
  "current_epoch (on_train_begin (callback_init N fld sf name) Map.empty) = 0"
  "numbers_only (metrics (on_train_begin (callback_init N fld sf name) Map.empty))"
  "epochs_left (on_train_begin (callback_init N fld sf name) logs0) = N"
  "save_freq (on_train_begin (callback_init N fld sf name) logs0) = sf"
  "filepath (on_train_begin (callback_init N fld sf name) logs0) = os_path_join fld name @ ''.h5''"
  "folder (on_train_begin (callback_init N fld sf name) logs0) = fld"
  "model_name (on_train_begin (callback_init N fld sf name) logs0) = name"
  by (simp_all add: on_train_begin_def callback_init_def numbers_only_def)

lemma run_from_begin:
  assumes ok: "\<forall>e \<in> set es. snd e ''loss'' \<noteq> None \<and> snd e ''val_loss'' \<noteq> None"
    and sf: "sf \<noteq> 0"
  shows "\<exists>cb' wss. run_epochs (on_train_begin (callback_init N fld sf name) Map.empty) es
                       = Inr (cb', wss) \<and>
           model_to_save cb' = retained_spec (val_losses es) \<and>
           (\<forall>i < length es. wss ! i =
              (if 1 \<le> i \<and> (N - int (Suc i)) mod sf = 0
               then [(os_path_join fld name @ ''.h5'',
                      the (retained_spec (val_losses (take (Suc i) es))))] else []))"
proof (cases es)
  case Nil
  then show ?thesis by (simp add: val_losses_def callback_init_def on_train_begin_def)
next
  case (Cons e es')
  let ?cb0 = "on_train_begin (callback_init N fld sf name) Map.empty :: 'a callback"
  obtain live logs where e: "e = (live, logs)" by (cases e)
  from ok Cons e obtain v where v: "logs ''loss'' \<noteq> None" "logs ''val_loss'' = Some v"
    by auto
  from on_epoch_end_first [OF begin_state(1,2,3) v, of N fld sf name live] obtain cb1 where
    step: "on_epoch_end ?cb0 live logs = Inr (cb1, [])"
    and cb1: "model_to_save cb1 = Some live" "numbers_only (metrics cb1)"
             "metrics cb1 ''val_loss'' = Some (Num v)"
    by blast
  note st = on_epoch_end_static [OF step, unfolded begin_state]
  have pre: "begun cb1" "1 \<le> current_epoch cb1" "save_freq cb1 \<noteq> 0"
    using st sf by simp_all
  have ok': "\<forall>e \<in> set es'. snd e ''loss'' \<noteq> None \<and> snd e ''val_loss'' \<noteq> None"
    using ok Cons by simp
  from run_epochs_later [OF pre(1,2) cb1(2,3,1) pre(3) ok'] obtain cb' wss where
    rest: "run_epochs cb1 es' = Inr (cb', wss)"
    and kept': "model_to_save cb' = Some (track live v (val_losses es'))"
    and ws': "\<forall>i < length es'. wss ! i =
              (if (epochs_left cb1 - int (Suc i)) mod save_freq cb1 = 0
               then [(filepath cb1, track live v (val_losses (take (Suc i) es')))] else [])"
    by blast
  have run: "run_epochs ?cb0 es = Inr (cb', [] # wss)"
    using Cons e step rest by simp
  have rs: "retained_spec (val_losses (e # xs)) = Some (track live v (val_losses xs))" for xs
    using e v by (simp add: val_losses_def)
  have "([] # wss) ! i =
              (if 1 \<le> i \<and> (N - int (Suc i)) mod sf = 0
               then [(os_path_join fld name @ ''.h5'',
                      the (retained_spec (val_losses (take (Suc i) es))))] else [])"
    if i: "i < length es" for i
  proof (cases i)
    case 0
    then show ?thesis by simp
  next
    case (Suc j)
    then have "j < length es'" using i Cons by simp
    with ws' have "wss ! j = (if (epochs_left cb1 - int (Suc j)) mod save_freq cb1 = 0
               then [(filepath cb1, track live v (val_losses (take (Suc j) es')))] else [])"
      by blast
    moreover have "epochs_left cb1 - int (Suc j) = N - int (Suc (Suc j))"
      using st by simp
    ultimately have "wss ! j = (if (N - int (Suc (Suc j))) mod sf = 0
               then [(os_path_join fld name @ ''.h5'',
                      track live v (val_losses (take (Suc j) es')))] else [])"
      using st by (simp only:)
    moreover have "the (retained_spec (val_losses (take (Suc (Suc j)) es)))
                     = track live v (val_losses (take (Suc j) es'))"
      using Cons rs [of "take (Suc j) es'"] by simp
    moreover have "1 \<le> Suc j" by simp
    ultimately show ?thesis unfolding Suc by (simp only: nth_Cons_Suc if_True simp_thms)
  qed
  then have all: "\<forall>i < length es. ([] # wss) ! i =
              (if 1 \<le> i \<and> (N - int (Suc i)) mod sf = 0
               then [(os_path_join fld name @ ''.h5'',
                      the (retained_spec (val_losses (take (Suc i) es))))] else [])"
    by blast
  have k: "model_to_save cb' = retained_spec (val_losses es)"
    using kept' rs [of es'] Cons by simp
  show ?thesis using run k all by blast
qed

text \<open>
  Claim C6. In a run whose every epoch logs a loss and a validation loss, with a save
  frequency other than 0, the callback never fails and the snapshot it retains after the
  epochs \<open>es\<close> is the one of the policy \<open>retained_spec\<close>: the first epoch's model is
  captured, and each later epoch's model replaces the snapshot exactly when its validation
  loss is strictly below the previous epoch's. The statement holds for every list of
  epochs, so for every prefix of a run.
\<close>

theorem checkpoint_policy:
  assumes ok: "\<forall>e \<in> set es. snd e ''loss'' \<noteq> None \<and> snd e ''val_loss'' \<noteq> None"
    and sf: "sf \<noteq> 0"
  shows "saved_snapshot (run_epochs (on_train_begin (callback_init N fld sf name) Map.empty) es)
           = Inr (retained_spec (val_losses es))"
  using run_from_begin [OF ok sf, of N fld name]
  by (auto simp: saved_snapshot_def)

lemma ex_logs_at: "ex_logs v ''loss'' = Some 1" "ex_logs v ''val_loss'' = Some v"
  by (simp_all add: ex_logs_def)

lemma ex_epochs_ok:
  "\<forall>e \<in> set (take n ex_epochs). snd e ''loss'' \<noteq> None \<and> snd e ''val_loss'' \<noteq> None"
proof -
  have "\<forall>e \<in> set ex_epochs. snd e ''loss'' \<noteq> None \<and> snd e ''val_loss'' \<noteq> None"
    by (simp add: ex_epochs_def ex_logs_at del: not_None_eq)
  then show ?thesis by (meson in_set_takeD)
qed

lemma ex_val_losses:
  "val_losses ex_epochs = [(1, 0.5), (2, 0.5), (3, 0.3), (4, 0.3), (5, 0.6)]"
  by (simp add: val_losses_def ex_epochs_def ex_logs_at)

theorem checkpoint_policy_witness:
  "saved_snapshot (run_epochs (on_train_begin (callback_init 5 ''proj'' 2 ''m'') Map.empty)
     (take 3 ex_epochs)) = Inr (Some 3) \<and>
   saved_snapshot (run_epochs (on_train_begin (callback_init 5 ''proj'' 2 ''m'') Map.empty)
     (take 4 ex_epochs)) = Inr (Some 3) \<and>
   saved_snapshot (run_epochs (on_train_begin (callback_init 5 ''proj'' 2 ''m'') Map.empty)
     ex_epochs) = Inr (Some 3) \<and>
   saved_snapshot (run_epochs (on_train_begin (callback_init 5 ''proj'' 2 ''m'') Map.empty)
     (take 2 ex_epochs)) = Inr (Some 1)"
proof -
  have t: "val_losses (take n ex_epochs) = take n (val_losses ex_epochs)" for n
    by (simp add: val_losses_def take_map)
  have two: "(2::int) \<noteq> 0" by simp
  have a: "take 5 ex_epochs = ex_epochs" by (simp add: ex_epochs_def)
  show ?thesis
    using checkpoint_policy [OF ex_epochs_ok [where n = 3] two, where N = 5 and fld = "''proj''"
        and name = "''m''"]
      checkpoint_policy [OF ex_epochs_ok [where n = 4] two, where N = 5 and fld = "''proj''"
        and name = "''m''"]
      checkpoint_policy [OF ex_epochs_ok [where n = 5] two, where N = 5 and fld = "''proj''"
        and name = "''m''"]
      checkpoint_policy [OF ex_epochs_ok [where n = 2] two, where N = 5 and fld = "''proj''"
        and name = "''m''"]
    by (simp add: t a ex_val_losses)
qed

lemma apply_writes_last: "apply_writes disk (ws @ [(p, m)]) p = Some m"
  by (simp add: apply_writes_def)

lemma ex_run:
  "\<exists>cb'. run_epochs (on_train_begin (callback_init 5 fld 2 name) Map.empty) ex_epochs =
      Inr (cb', [[], [], [(os_path_join fld name @ ''.h5'', 3)], [],
                 [(os_path_join fld name @ ''.h5'', 3)]])"
proof -
  have two: "(2::int) \<noteq> 0" by simp
  have all: "\<forall>e \<in> set ex_epochs. snd e ''loss'' \<noteq> None \<and> snd e ''val_loss'' \<noteq> None"
    using ex_epochs_ok [of 5] by (simp add: ex_epochs_def)
  from run_from_begin [OF all two, of 5 fld name] obtain cb' wss where
    run: "run_epochs (on_train_begin (callback_init 5 fld 2 name) Map.empty) ex_epochs
            = Inr (cb', wss)"
    and ws: "\<forall>i < length ex_epochs. wss ! i =
              (if 1 \<le> i \<and> (5 - int (Suc i)) mod 2 = 0
               then [(os_path_join fld name @ ''.h5'',
                      the (retained_spec (val_losses (take (Suc i) ex_epochs))))] else [])"
    by blast
  have len: "length wss = 5"
    using run_epochs_static [OF run] by (simp add: ex_epochs_def)
  have t: "val_losses (take n ex_epochs) = take n (val_losses ex_epochs)" for n
    by (simp add: val_losses_def take_map)
  have l5: "length ex_epochs = 5" by (simp add: ex_epochs_def)
  have w: "wss ! 0 = []" "wss ! 1 = []" "wss ! 2 = [(os_path_join fld name @ ''.h5'', 3)]"
    "wss ! 3 = []" "wss ! 4 = [(os_path_join fld name @ ''.h5'', 3)]"
    using ws by (simp_all add: l5 t ex_val_losses)
  have "wss = map (\<lambda>i. wss ! i) [0..<5]"
    using map_nth [of wss] len by simp
  also have "[0..<5] = [0, 1, 2, 3, 4::nat]" by (simp add: upt_rec)
  finally have "wss = [[], [], [(os_path_join fld name @ ''.h5'', 3)], [],
                 [(os_path_join fld name @ ''.h5'', 3)]]"
    using w by simp
  then show ?thesis using run by simp
qed

text \<open>
  Claim C4, as the code has it. In a run whose every epoch logs a loss and a validation
  loss, with a save frequency other than 0 and \<open>N\<close> configured epochs, the callback writes
  after epoch \<open>k\<close> (index \<open>i = k - 1\<close>) exactly when \<open>k \<ge> 2\<close> and \<open>(N - k) mod sf = 0\<close>, and then
  writes the retained snapshot to the checkpoint path; after the first epoch it writes
  nothing. \<^verbatim>\<open>on_train_end\<close> writes the live model to the same path, so that at the end of
  the run the disk holds the last epoch's model there, whatever it held before.
\<close>

theorem checkpoint_saves:
  assumes ok: "\<forall>e \<in> set es. snd e ''loss'' \<noteq> None \<and> snd e ''val_loss'' \<noteq> None"
    and sf: "sf \<noteq> 0"
  shows "\<exists>cb' wss.
           run_epochs (on_train_begin (callback_init N fld sf name) Map.empty) es
             = Inr (cb', wss) \<and>
           length wss = length es \<and>
           (\<forall>i < length es. wss ! i =
              (if 1 \<le> i \<and> (N - int (Suc i)) mod sf = 0
               then [(os_path_join fld name @ ''.h5'',
                      the (retained_spec (val_losses (take (Suc i) es))))] else [])) \<and>
           snd (on_train_end cb' live) = [(os_path_join fld name @ ''.h5'', live)] \<and>
           disk_at (training_run (callback_init N fld sf name) initial es disk)
             (os_path_join fld name @ ''.h5'') = Inr (Some (last (initial # map fst es)))"
proof -
  from run_from_begin [OF ok sf, of N fld name] obtain cb' wss where
    run: "run_epochs (on_train_begin (callback_init N fld sf name) Map.empty) es
            = Inr (cb', wss)"
    and ws: "\<forall>i < length es. wss ! i =
              (if 1 \<le> i \<and> (N - int (Suc i)) mod sf = 0
               then [(os_path_join fld name @ ''.h5'',
                      the (retained_spec (val_losses (take (Suc i) es))))] else [])"
    by blast
  note st = run_epochs_static [OF run, unfolded begin_state]
  have fin: "snd (on_train_end cb' m) = [(os_path_join fld name @ ''.h5'', m)]" for m
    using st by (simp add: on_train_end_def)
  have "training_run (callback_init N fld sf name) initial es disk =
          Inr (apply_writes (apply_writes disk (concat wss))
                 ([] @ [(os_path_join fld name @ ''.h5'', last (initial # map fst es))]))"
    using run fin by (simp add: training_run_def)
  then have "disk_at (training_run (callback_init N fld sf name) initial es disk)
             (os_path_join fld name @ ''.h5'') = Inr (Some (last (initial # map fst es)))"
    by (simp only: disk_at_def apply_writes_last map_sum.simps)
  then show ?thesis using run ws st fin by blast
qed

theorem checkpoint_saves_witness:
  "epoch_writes (run_epochs (on_train_begin (callback_init 5 ''proj'' 2 ''m'') Map.empty) ex_epochs)
     = Inr [[], [], [(''proj/m.h5'', 3)], [], [(''proj/m.h5'', 3)]] \<and>
   disk_at (training_run (callback_init 5 ''proj'' 2 ''m'') 0 ex_epochs [''proj/m.h5'' \<mapsto> 9])
     ''proj/m.h5'' = Inr (Some 5)"
proof -
  have two: "(2::int) \<noteq> 0" by simp
  have all: "\<forall>e \<in> set ex_epochs. snd e ''loss'' \<noteq> None \<and> snd e ''val_loss'' \<noteq> None"
    using ex_epochs_ok [of 5] by (simp add: ex_epochs_def)
  have p: "os_path_join ''proj'' ''m'' @ ''.h5'' = ''proj/m.h5''"
    by (simp add: os_path_join_def)
  from checkpoint_saves [OF all two, where N = 5 and fld = "''proj''" and name = "''m''"
      and live = 5 and initial = 0 and disk = "[''proj/m.h5'' \<mapsto> 9]", unfolded p]
  obtain cb' wss where
    run: "run_epochs (on_train_begin (callback_init 5 ''proj'' 2 ''m'') Map.empty) ex_epochs
            = Inr (cb', wss)"
    and len: "length wss = length ex_epochs"
    and ws: "\<forall>i < length ex_epochs. wss ! i =
              (if 1 \<le> i \<and> (5 - int (Suc i)) mod 2 = 0
               then [(''proj/m.h5'',
                      the (retained_spec (val_losses (take (Suc i) ex_epochs))))] else [])"
    and disk: "disk_at (training_run (callback_init 5 ''proj'' 2 ''m'') 0 ex_epochs
                 [''proj/m.h5'' \<mapsto> 9]) ''proj/m.h5''
               = Inr (Some (last (0 # map fst ex_epochs)))"
    by blast
  have t: "val_losses (take n ex_epochs) = take n (val_losses ex_epochs)" for n
    by (simp add: val_losses_def take_map)
  have l5: "length ex_epochs = 5" by (simp add: ex_epochs_def)
  have w: "wss ! 0 = []" "wss ! 1 = []" "wss ! 2 = [(''proj/m.h5'', 3)]"
    "wss ! 3 = []" "wss ! 4 = [(''proj/m.h5'', 3)]"
    using ws by (simp_all add: l5 t ex_val_losses)
  have "wss = map (\<lambda>i. wss ! i) [0..<5]"
    using map_nth [of wss] len l5 by simp
  also have "[0..<5] = [0, 1, 2, 3, 4::nat]" by (simp add: upt_rec)
  finally have "wss = [[], [], [(''proj/m.h5'', 3)], [], [(''proj/m.h5'', 3)]]"
    using w by simp
  moreover have "last (0 # map fst ex_epochs) = 5" by (simp add: ex_epochs_def)
  ultimately show ?thesis using run disk by (simp add: epoch_writes_def)
qed

text \<open>
  Claim C4 as stated asks for a save after epoch 1 of a 5-epoch run with save frequency 2,
  since 4 epochs remain and \<open>4 mod 2 = 0\<close>. The run writes after epochs 3 and 5 only.
\<close>

theorem save_after_first_epoch_counterexample:
  "epoch_writes (run_epochs (on_train_begin (callback_init 5 ''proj'' 2 ''m'') Map.empty) ex_epochs)
     = Inr [[], [], [(''proj/m.h5'', 3)], [], [(''proj/m.h5'', 3)]] \<and>
   (5 - 1) mod 2 = (0::int)"
proof -
  have p: "os_path_join ''proj'' ''m'' @ ''.h5'' = ''proj/m.h5''"
    by (simp add: os_path_join_def)
  show ?thesis using ex_run [of "''proj''" "''m''"] by (auto simp: epoch_writes_def p)
qed

text \<open>
  Claim C10. The path fixed at construction is the folder joined with the model name,
  followed by \<^verbatim>\<open>.h5\<close>; every file a run writes after an epoch goes to that path, and so
  does the final save of \<^verbatim>\<open>on_train_end\<close>. With the default model name the file is
  named \<^verbatim>\<open>landmarks_detection_model.h5.h5\<close>, in whatever directory the folder names.
\<close>

theorem checkpoint_path:
  "filepath (callback_init N fld sf name :: 'm callback) = os_path_join fld name @ ''.h5'' \<and>
   (\<forall>(cb' :: 'm callback) wss. run_epochs (on_train_begin (callback_init N fld sf name) logs0) es = Inr (cb', wss)
      \<longrightarrow> (\<forall>w \<in> set (concat wss). fst w = os_path_join fld name @ ''.h5'') \<and>
          map fst (snd (on_train_end cb' live)) = [os_path_join fld name @ ''.h5'']) \<and>
   (\<exists>dir. (dir = [] \<or> last dir = CHR ''/'') \<and>
          os_path_join fld default_model_name @ ''.h5''
            = dir @ ''landmarks_detection_model.h5.h5'')"
proof (intro conjI allI impI)
  show "filepath (callback_init N fld sf name :: 'm callback) = os_path_join fld name @ ''.h5''"
    by (simp add: callback_init_def)
next
  fix cb' :: "'m callback" and wss
  assume run: "run_epochs (on_train_begin (callback_init N fld sf name) logs0) es = Inr (cb', wss)"
  note st = run_epochs_static [OF run, unfolded begin_state]
  show "\<forall>w \<in> set (concat wss). fst w = os_path_join fld name @ ''.h5''"
    using st by blast
  show "map fst (snd (on_train_end cb' live)) = [os_path_join fld name @ ''.h5'']"
    using st by (simp add: on_train_end_def)
next
  have "os_path_join fld default_model_name @ ''.h5'' =
          (if fld = [] \<or> last fld = CHR ''/'' then fld else fld @ ''/'')
            @ ''landmarks_detection_model.h5.h5''"
    by (simp add: os_path_join_def default_model_name_def)
  moreover have "(if fld = [] \<or> last fld = CHR ''/'' then fld else fld @ ''/'') = [] \<or>
                 last (if fld = [] \<or> last fld = CHR ''/'' then fld else fld @ ''/'') = CHR ''/''"
    by simp
  ultimately show "\<exists>dir. (dir = [] \<or> last dir = CHR ''/'') \<and>
          os_path_join fld default_model_name @ ''.h5''
            = dir @ ''landmarks_detection_model.h5.h5''"
    by blast
qed

theorem checkpoint_path_witness:
  "written_paths (run_epochs (on_train_begin (callback_init 5 ''proj'' 2 default_model_name)
      Map.empty) ex_epochs) 5
     = Inr [''proj/landmarks_detection_model.h5.h5'', ''proj/landmarks_detection_model.h5.h5'',
            ''proj/landmarks_detection_model.h5.h5'']"
proof -
  have p: "os_path_join ''proj'' default_model_name @ ''.h5''
             = ''proj/landmarks_detection_model.h5.h5''"
    by (simp add: os_path_join_def default_model_name_def)
  from ex_run [of "''proj''" default_model_name] obtain cb' :: "nat callback" where
    run: "run_epochs (on_train_begin (callback_init 5 ''proj'' 2 default_model_name) Map.empty)
            ex_epochs
          = Inr (cb', [[], [], [(os_path_join ''proj'' default_model_name @ ''.h5'', 3)], [],
                 [(os_path_join ''proj'' default_model_name @ ''.h5'', 3)]])"
    by blast
  from checkpoint_path [where N = 5 and fld = "''proj''" and sf = 2 and name = default_model_name
      and ?logs0.0 = Map.empty and es = ex_epochs and live = 5] run
  have "map fst (snd (on_train_end cb' 5)) = [os_path_join ''proj'' default_model_name @ ''.h5'']"
    by blast
  then show ?thesis using run by (simp add: written_paths_def p)
qed

section \<open>The split is not disjoint\<close>

text \<open>
  Whatever the generator draws, the training subset is the table without its first \<open>n\<close>
  rows, \<open>n\<close> being the size of the validation subset.
\<close>

lemma length_draw: "length (draw xs n rs) = min n (length xs)"
proof (induction xs n rs rule: draw.induct)
  case (3 x xs n rs)
  let ?k = "(case rs of [] \<Rightarrow> 0 | r # _ \<Rightarrow> r) mod length (x # xs)"
  have k: "?k < length (x # xs)" by simp
  have "?k \<le> length xs" using k by simp
  then have "length (take ?k (x # xs) @ drop (Suc ?k) (x # xs)) = length xs"
    by simp
  then show ?case using 3 [of ?k] by (simp add: Let_def)
qed simp_all

lemma filter_enumerate:
  "filter (\<lambda>r. \<not> fst r < n) (enumerate m xs) = enumerate (max m n) (drop (n - m) xs)"
proof (induction xs arbitrary: m)
  case Nil
  then show ?case by simp
next
  case (Cons x xs)
  show ?case
  proof (cases "m < n")
    case True
    then have "n - m = Suc (n - Suc m)" by simp
    then have "drop (n - m) (x # xs) = drop (n - Suc m) xs" by simp
    moreover have "max m n = max (Suc m) n" using True by simp
    ultimately show ?thesis using True Cons [of "Suc m"] by simp
  next
    case False
    then have "max m n = m" "n - m = 0" "max (Suc m) n = Suc m" "n - Suc m = 0" by simp_all
    then show ?thesis using False Cons [of "Suc m"] by simp
  qed
qed

lemma reset_index_enumerate: "reset_index xs = enumerate 0 xs"
  by (simp add: reset_index_def enumerate_eq_zip)

lemma split_train_is_tail:
  assumes "split_train_val df test_size rs = Inr (train, val)"
  shows "map snd train =
           drop (nat (py_int (test_size * real (length (dropna (df_columns df) (df_rows df))))))
             (dropna (df_columns df) (df_rows df))"
proof -
  let ?xs = "dropna (df_columns df) (df_rows df)"
  let ?n = "py_int (test_size * real (length ?xs))"
  have lc: "length (reset_index ?xs) = length ?xs" by (simp add: reset_index_def)
  from assms have n: "0 \<le> ?n" "?n \<le> int (length ?xs)"
    by (auto simp: split_train_val_def Let_def sample_def lc split: if_splits sum.splits)
  let ?drawn = "reset_index (map snd (draw (reset_index ?xs) (nat ?n) rs))"
  have ld: "length ?drawn = nat ?n"
    using n by (simp add: reset_index_def length_draw lc)
  have labels: "map fst (reset_index (map snd ?drawn)) = [0..<nat ?n]"
    using ld by (simp add: reset_index_def)
  have kept: "filter (\<lambda>r. \<not> fst r < nat ?n) (reset_index ?xs)
                = enumerate (nat ?n) (drop (nat ?n) ?xs)"
    using filter_enumerate [of "nat ?n" 0 ?xs] by (simp add: reset_index_enumerate)
  have "train = reset_index (map snd (enumerate (nat ?n) (drop (nat ?n) ?xs)))"
    using assms n
    by (auto simp: split_train_val_def Let_def sample_def lc drop_labels_def labels kept
             split: if_splits sum.splits)
  then show ?thesis by (simp add: reset_index_def)
qed

text \<open>
  Claim C1 asks that no sample is in both subsets and that the training subset is what
  the validation draw left. With four annotated samples, a validation fraction of one
  half and a generator that draws the third and fourth sample, the validation subset is
  \<^verbatim>\<open>c.tif, d.tif\<close> and so is the training subset: the drawn rows are relabelled 0 and 1
  (\<^verbatim>\<open>ignore_index=True\<close>), and dropping those labels removes the first two rows of the
  table instead of the rows drawn.
\<close>

theorem split_overlaps:
  "split_names (split_train_val ex_four (1 / 2) [2, 2])
     = Inr ([''c.tif'', ''d.tif''], [''c.tif'', ''d.tif''])"
  by (simp add: split_train_val_def split_names_def ex_four_def dropna_def reset_index_def
        sample_def drop_labels_def py_int_def upt_rec numeral_2_eq_2 Let_def)

section \<open>Properties of the loader\<close>

lemma check_loop_result:
  "\<forall>p \<in> set ps. fs p \<noteq> None \<Longrightarrow>
   check_loop fs s0 ps = Inr (if \<forall>p \<in> set ps. fs p = Some s0 then Some s0 else None)"
  by (induction ps) (auto split: option.splits)

lemma check_image_shape_result:
  assumes "df_files \<noteq> []" and "\<forall>p \<in> set (map snd df_files). fs p \<noteq> None"
  shows "check_image_shape fs df_files =
           Inr (if \<forall>p \<in> set (map snd df_files). fs p = fs (snd (hd df_files))
                then fs (snd (hd df_files)) else None)"
proof -
  obtain r rs where df: "df_files = r # rs" using assms(1) by (cases df_files) auto
  obtain s0 where s0: "fs (snd r) = Some s0" using assms(2) df by auto
  show ?thesis
    using check_loop_result [OF assms(2), of s0] df s0
    by (simp add: check_image_shape_def)
qed

lemma landmark_positions_ok:
  assumes "\<forall>l \<in> set names. \<exists>x y. loc_first dfp p l = Inr (Coord x y)"
    and "''full path'' \<notin> set names"
  shows "\<exists>row. landmark_positions dfp p names = Inr row \<and> length row = 2 * length names"
  using assms
proof (induction names)
  case Nil
  then show ?case by simp
next
  case (Cons l names)
  then obtain x y where c: "loc_first dfp p l = Inr (Coord x y)" by auto
  from Cons obtain row where
    "landmark_positions dfp p names = Inr row" "length row = 2 * length names"
    by auto
  then show ?case using c Cons.prems(2) by auto
qed

lemma load_rows_ok:
  assumes "\<forall>p \<in> set ps. fs p \<noteq> None"
    and "\<forall>p \<in> set ps. \<forall>l \<in> set names. \<exists>x y. loc_first dfp p l = Inr (Coord x y)"
    and "''full path'' \<notin> set names"
  shows "\<exists>rows. load_rows fs dfp names ps = Inr rows \<and> length rows = length ps \<and>
           (\<forall>row \<in> set rows. length row = 2 * length names)"
  using assms
proof (induction ps)
  case Nil
  then show ?case by simp
next
  case (Cons p ps)
  then obtain s where s: "fs p = Some s" by auto
  from Cons.prems(2) have "\<forall>l \<in> set names. \<exists>x y. loc_first dfp p l = Inr (Coord x y)"
    by simp
  from landmark_positions_ok [OF this Cons.prems(3)] obtain row where
    row: "landmark_positions dfp p names = Inr row" "length row = 2 * length names"
    by blast
  from Cons obtain rows where
    "load_rows fs dfp names ps = Inr rows" "length rows = length ps"
    "\<forall>row \<in> set rows. length row = 2 * length names"
    by auto
  then show ?case using s row by simp
qed

text \<open>
  When the landmark table serves as the file table, both tables list the same paths.
\<close>

lemma files_of_landmarks_paths:
  "map snd (files_of_landmarks fld df) = map fst (df_rows (with_full_path fld df))"
  by (simp add: files_of_landmarks_def with_full_path_def o_def)

text \<open>
  Claim C8. Take a file table that is not empty and whose paths all hold an image. If some
  image has a shape different from the first image's, \<open>import_data\<close> returns None. If all
  images are 2D with the same shape \<open>(h, w)\<close>, and the coordinate table has a row with a
  coordinate pair for every vocabulary landmark of every file and lists as many distinct
  paths as the file table, then \<open>import_data\<close> returns arrays: \<open>X\<close> of shape
  \<open>[n, h, w, 1]\<close> and \<open>y\<close> of \<open>n\<close> rows of \<open>2 \<times> n_landmarks\<close> numbers, \<open>n\<close> being the number of
  distinct paths.
\<close>

theorem import_data_shapes:
  assumes nonempty: "df_files \<noteq> []"
    and exist: "\<forall>p \<in> set (map snd df_files). fs p \<noteq> None"
  shows "(\<not> (\<forall>p \<in> set (map snd df_files). fs p = fs (snd (hd df_files)))
            \<longrightarrow> import_data fs fld df_landmarks df_files df_model = Inr None) \<and>
         ((\<forall>p \<in> set (map snd df_files). fs p = Some (Gray h w)) \<and>
          (\<forall>p \<in> set (map snd df_files). \<forall>l \<in> set (model_names df_model). \<exists>x y.
              loc_first (with_full_path fld df_landmarks) p l = Inr (Coord x y)) \<and>
          ''full path'' \<notin> set (model_names df_model) \<and>
          length (unique (map fst (df_rows (with_full_path fld df_landmarks))))
            = length (unique (map snd df_files))
            \<longrightarrow> (\<exists>a. import_data fs fld df_landmarks df_files df_model = Inr (Some a) \<and>
                   x_shape a = [length (unique (map snd df_files)), h, w, 1] \<and>
                   length (y_rows a) = length (unique (map snd df_files)) \<and>
                   (\<forall>row \<in> set (y_rows a). length row = 2 * length (model_names df_model))))"
proof (intro conjI impI)
  assume "\<not> (\<forall>p \<in> set (map snd df_files). fs p = fs (snd (hd df_files)))"
  then have "check_image_shape fs df_files = Inr None"
    using check_image_shape_result [OF nonempty exist] by (simp only: if_False)
  then show "import_data fs fld df_landmarks df_files df_model = Inr None"
    by (simp add: import_data_def)
next
  assume a: "(\<forall>p \<in> set (map snd df_files). fs p = Some (Gray h w)) \<and>
          (\<forall>p \<in> set (map snd df_files). \<forall>l \<in> set (model_names df_model). \<exists>x y.
              loc_first (with_full_path fld df_landmarks) p l = Inr (Coord x y)) \<and>
          ''full path'' \<notin> set (model_names df_model) \<and>
          length (unique (map fst (df_rows (with_full_path fld df_landmarks))))
            = length (unique (map snd df_files))"
  let ?ps = "unique (map snd df_files)"
  have hd: "fs (snd (hd df_files)) = Some (Gray h w)"
    using a nonempty by (cases df_files) auto
  have chk: "check_image_shape fs df_files = Inr (Some (Gray h w))"
    using check_image_shape_result [OF nonempty exist] a hd by simp
  have e: "\<forall>p \<in> set ?ps. fs p \<noteq> None" using exist by (simp add: set_unique)
  have r: "\<forall>p \<in> set ?ps. \<forall>l \<in> set (model_names df_model). \<exists>x y.
              loc_first (with_full_path fld df_landmarks) p l = Inr (Coord x y)"
    using a by (simp add: set_unique)
  from load_rows_ok [OF e r] a obtain rows where
    rows: "load_rows fs (with_full_path fld df_landmarks) (model_names df_model) ?ps = Inr rows"
      "length rows = length ?ps"
      "\<forall>row \<in> set rows. length row = 2 * length (model_names df_model)"
    by blast
  show "\<exists>a. import_data fs fld df_landmarks df_files df_model = Inr (Some a) \<and>
                   x_shape a = [length (unique (map snd df_files)), h, w, 1] \<and>
                   length (y_rows a) = length (unique (map snd df_files)) \<and>
                   (\<forall>row \<in> set (y_rows a). length row = 2 * length (model_names df_model))"
    using chk rows a by (simp add: import_data_def Let_def)
qed

lemma ex_files_unique: "unique (map snd ex_files) = [''train/a.tif'', ''train/b.tif'']"
  by (simp add: unique_def ex_files_def)

lemma ex_with_full_path:
  "with_full_path ''train'' ex_landmarks =
     \<lparr>df_columns = [''L1'', ''L2''],
      df_rows = [(''train/a.tif'', (\<lambda>_. NaN)(''L1'' := Coord 7 9, ''L2'' := Coord 4 6)),
                 (''train/b.tif'', (\<lambda>_. NaN)(''L1'' := Coord 3 5, ''L2'' := Coord 8 2))]\<rparr>"
  by (simp add: with_full_path_def ex_landmarks_def os_path_join_def)

theorem import_data_shapes_witness:
  "import_data ex_fs_mixed ''train'' ex_landmarks ex_files ex_model = Inr None \<and>
   loaded_x_shape (import_data ex_fs_uniform ''train'' ex_landmarks ex_files ex_model)
     = Inr (Some [2, 4, 6, 1]) \<and>
   loaded_y (import_data ex_fs_uniform ''train'' ex_landmarks ex_files ex_model)
     = Inr (Some [[7, 9, 4, 6], [3, 5, 8, 2]])"
proof -
  have ne: "ex_files \<noteq> []" by (simp add: ex_files_def)
  have em: "\<forall>p \<in> set (map snd ex_files). ex_fs_mixed p \<noteq> None"
    by (simp add: ex_files_def ex_fs_mixed_def)
  have eu: "\<forall>p \<in> set (map snd ex_files). ex_fs_uniform p \<noteq> None"
    by (simp add: ex_files_def ex_fs_uniform_def)
  have differ: "\<not> (\<forall>p \<in> set (map snd ex_files). ex_fs_mixed p = ex_fs_mixed (snd (hd ex_files)))"
    by (simp add: ex_files_def ex_fs_mixed_def)
  have mixed: "import_data ex_fs_mixed ''train'' ex_landmarks ex_files ex_model = Inr None"
    using import_data_shapes [OF ne em, where fld = "''train''" and df_landmarks = ex_landmarks
        and df_model = ex_model] differ
    by blast
  have same: "\<forall>p \<in> set (map snd ex_files). ex_fs_uniform p = Some (Gray 4 6)"
    by (simp add: ex_files_def ex_fs_uniform_def)
  have ann: "\<forall>p \<in> set (map snd ex_files). \<forall>l \<in> set (model_names ex_model). \<exists>x y.
              loc_first (with_full_path ''train'' ex_landmarks) p l = Inr (Coord x y)"
    by (simp add: ex_with_full_path model_names_ex ex_files_def loc_first_def)
  have fp: "''full path'' \<notin> set (model_names ex_model)"
    by (simp add: model_names_ex)
  have cnt: "length (unique (map fst (df_rows (with_full_path ''train'' ex_landmarks))))
            = length (unique (map snd ex_files))"
    unfolding ex_files_unique by (simp add: ex_with_full_path unique_def)
  from import_data_shapes [OF ne eu, where fld = "''train''" and df_landmarks = ex_landmarks
        and df_model = ex_model and h = 4 and w = 6] same ann fp cnt
  obtain a where a: "import_data ex_fs_uniform ''train'' ex_landmarks ex_files ex_model
                       = Inr (Some a)"
    "x_shape a = [length (unique (map snd ex_files)), 4, 6, 1]"
    by blast
  have x: "loaded_x_shape (import_data ex_fs_uniform ''train'' ex_landmarks ex_files ex_model)
     = Inr (Some [2, 4, 6, 1])"
    using a by (simp add: loaded_x_shape_def ex_files_unique)
  have chk: "check_image_shape ex_fs_uniform ex_files = Inr (Some (Gray 4 6))"
    by (simp add: check_image_shape_def ex_files_def ex_fs_uniform_def)
  have rows: "load_rows ex_fs_uniform (with_full_path ''train'' ex_landmarks)
                (model_names ex_model) (unique (map snd ex_files))
              = Inr [[7, 9, 4, 6], [3, 5, 8, 2]]"
    by (simp add: ex_with_full_path model_names_ex ex_files_unique loc_first_def
          ex_fs_uniform_def)
  have y: "loaded_y (import_data ex_fs_uniform ''train'' ex_landmarks ex_files ex_model)
     = Inr (Some [[7, 9, 4, 6], [3, 5, 8, 2]])"
    using a(1) by (auto simp: import_data_def chk rows loaded_y_def Let_def split: if_splits)
  show ?thesis using mixed x y by simp
qed

section \<open>Properties of the prediction\<close>











lemma model_names_one: "model_names ex_one_model = [''L1'']"
  by (simp add: model_names_def ex_one_model_def unique_def)


lemma ex_two_opened:
  "open_all ex_two_fs 128 128 (unique (map snd ex_two_files))
     = Inr [Gray 256 256, Gray 512 512]"
  by (simp add: ex_two_files_def ex_two_fs_def unique_def)









text \<open>
  The factors are computed once, after the loop, from the last image opened. In a batch of
  a 256 by 256 and a 512 by 512 image the first image's pair \<open>(64, 64)\<close> is therefore
  multiplied by 4.
\<close>

lemma predict_uses_last_image_size:
  "cell_of (predict_landmarks binary64 binary32 ex_two_fs ex_two_files ex_one_model 128 128
              [[64, 64], [64, 64]])
     ''a.tif'' ''L1'' = Inr (Coord 256 256)"
proof -
  have p: "binary64 4 = 4" "binary32 4 = 4" "binary32 256 = 256"
    using binary64_at [of 4 50] binary32_at [of 4 21] binary32_at [of 256 15]
    by (simp_all add: py_round_def)
  show ?thesis
    by (simp add: predict_landmarks_def ex_two_opened model_names_one batch_fits_def Let_def
          write_predictions_def cell_of_def p)
       (simp add: loc_set_def py_int_def loc_first_def p ex_two_files_def ex_one_model_def
          upt_rec)
qed

end
